theory Spec2Isabelle
  imports Complex_Main
begin

section \<open>The control loop of the Patroni daemon (patroni/__init__.py)\<close>

text \<open>
  The module defines the class \<open>Patroni\<close> and the function \<open>main\<close>. Everything the
  class talks to (the configuration object, the DCS client, the REST API server, the
  PostgreSQL wrapper, the HA object, the clock, the logger) lives in other modules. The
  embedding keeps the daemon's own fields in a record, threads the state of all
  collaborators through one value of an arbitrary type \<open>'w\<close>, and takes the collaborators'
  methods as a record of functions over \<open>'w\<close>. Every call the daemon issues is appended to
  a trace, so that a statement about which calls are made, how often and in which order
  is a statement about a list.

  Time stamps and durations are real numbers: \<open>time.time()\<close> and \<open>loop_wait\<close> are
  idealised, rounding of the machine's floats is not modelled. Signal handlers run
  asynchronously in Python; here they are ordinary functions on the state and are not
  interleaved with the loop.
\<close>

subsection \<open>Python values and their truth value\<close>

text \<open>The values a YAML configuration file yields. A float is idealised as a real.\<close>

datatype pyval =
    PNone
  | PBool bool
  | PInt int
  | PFloat real
  | PStr string
  | PList "pyval list"
  | PDict "(string \<times> pyval) list"

text \<open>Python's \<open>bool(v)\<close>: \<open>None\<close>, \<open>False\<close>, zero and empty containers are false.\<close>

fun truthy :: "pyval \<Rightarrow> bool" where
  "truthy PNone = False"
| "truthy (PBool b) = b"
| "truthy (PInt i) = (i \<noteq> 0)"
| "truthy (PFloat x) = (x \<noteq> 0)"
| "truthy (PStr s) = (s \<noteq> [])"
| "truthy (PList xs) = (xs \<noteq> [])"
| "truthy (PDict kvs) = (kvs \<noteq> [])"

subsection \<open>Exceptions\<close>

text \<open>
  \<open>DCSError\<close> is the exception of \<open>patroni.exceptions\<close>; \<open>KeyError\<close> and
  \<open>OtherException\<close> stand for the remaining subclasses of \<open>Exception\<close>.
  \<open>KeyboardInterrupt\<close> and \<open>SystemExit\<close> derive from \<open>BaseException\<close> only, so
  \<open>except Exception\<close> does not catch them.
\<close>

datatype exn = DCSError | KeyError | OtherException | KeyboardInterrupt | SystemExit

fun is_Exception :: "exn \<Rightarrow> bool" where
  "is_Exception DCSError = True"
| "is_Exception KeyError = True"
| "is_Exception OtherException = True"
| "is_Exception KeyboardInterrupt = False"
| "is_Exception SystemExit = False"

fun is_DCSError :: "exn \<Rightarrow> bool" where
  "is_DCSError DCSError = True"
| "is_DCSError KeyError = False"
| "is_DCSError OtherException = False"
| "is_DCSError KeyboardInterrupt = False"
| "is_DCSError SystemExit = False"

subsection \<open>The trace of calls\<close>

datatype event =
    DcsGetCluster
  | DcsReloadConfig
  | DcsWatch real
  | DcsDeleteLeader
  | ConfigSetDynamicConfiguration pyval
  | ConfigReloadLocalConfiguration
  | ConfigSaveCache
  | ApiStart
  | ApiShutdown
  | ApiReloadConfig
  | PostgresqlReloadConfig
  | PostgresqlStop bool
  | PostgresqlDataDirectoryEmpty
  | HaRunCycle
  | HaIsPaused
  | ReapChildren
  | TimeSleep real
  | LogInfo string
  | LogWarning string
  | LogException string

fun is_stop :: "event \<Rightarrow> bool" where
  "is_stop (PostgresqlStop c) = True"
| "is_stop e = False"

fun is_warning :: "event \<Rightarrow> bool" where
  "is_warning (LogWarning m) = True"
| "is_warning e = False"

fun is_sleep :: "event \<Rightarrow> bool" where
  "is_sleep (TimeSleep d) = True"
| "is_sleep e = False"

fun is_watch :: "event \<Rightarrow> bool" where
  "is_watch (DcsWatch d) = True"
| "is_watch e = False"

definition occurrences :: "(event \<Rightarrow> bool) \<Rightarrow> event list \<Rightarrow> nat" where
  "occurrences p evs = length (filter p evs)"

subsection \<open>The daemon's state and its collaborators\<close>

text \<open>The cluster view of the DCS; only its \<open>config\<close> attribute is consulted.\<close>

record cluster =
  config :: pyval

text \<open>
  The fields of a \<open>Patroni\<close> object that the module reads or writes, the state \<open>world\<close>
  of everything outside it, and the \<open>trace\<close> of the calls issued so far (oldest first).
  \<open>scheduled_restart\<close> is only initialised by the constructor and is left out.
\<close>

record 'w patroni =
  received_sighup :: bool
  received_sigterm :: bool
  tags :: "string \<rightharpoonup> pyval"
  next_run :: real
  world :: 'w
  trace :: "event list"

text \<open>
  The collaborators. A method that may raise returns \<open>Inl\<close> of the exception; an
  attribute or a lookup that only reads is a function of the world.
  \<^item> \<open>config_get_tags\<close> is \<open>self.config.get('tags', {})\<close>;
  \<^item> \<open>config_dynamic_configuration\<close> is \<open>self.config.dynamic_configuration\<close>;
  \<^item> \<open>config_contains_bootstrap\<close> is \<open>'bootstrap' in self.config\<close>;
  \<^item> \<open>config_bootstrap_dcs\<close> is \<open>self.config['bootstrap']['dcs']\<close>, which raises
    when the section has no such entry;
  \<^item> \<open>api_reload_config\<close> and \<open>postgresql_reload_config\<close> include the lookup of
    their argument, \<open>self.config['restapi']\<close> and \<open>self.config['postgresql']\<close>;
  \<^item> \<open>config_write_cache\<close> is the attempt of \<open>Config.save_cache\<close> to write the
    cache file; it reports whether the write succeeded.
\<close>

record 'w collaborators =
  time_time :: "'w \<Rightarrow> real \<times> 'w"
  time_sleep :: "real \<Rightarrow> 'w \<Rightarrow> 'w"
  dcs_get_cluster :: "'w \<Rightarrow> (exn + cluster option) \<times> 'w"
  dcs_reload_config :: "'w \<Rightarrow> (exn + unit) \<times> 'w"
  dcs_loop_wait :: "'w \<Rightarrow> real"
  dcs_cluster :: "'w \<Rightarrow> cluster option"
  dcs_watch :: "real \<Rightarrow> 'w \<Rightarrow> (exn + bool) \<times> 'w"
  dcs_delete_leader :: "'w \<Rightarrow> (exn + unit) \<times> 'w"
  config_get_tags :: "'w \<Rightarrow> (string \<rightharpoonup> pyval)"
  config_dynamic_configuration :: "'w \<Rightarrow> pyval"
  config_contains_bootstrap :: "'w \<Rightarrow> bool"
  config_bootstrap_dcs :: "'w \<Rightarrow> exn + pyval"
  config_set_dynamic_configuration :: "pyval \<Rightarrow> 'w \<Rightarrow> (exn + bool) \<times> 'w"
  config_reload_local_configuration :: "'w \<Rightarrow> (exn + bool) \<times> 'w"
  config_write_cache :: "'w \<Rightarrow> bool \<times> 'w"
  api_start :: "'w \<Rightarrow> (exn + unit) \<times> 'w"
  api_shutdown :: "'w \<Rightarrow> (exn + unit) \<times> 'w"
  api_reload_config :: "'w \<Rightarrow> (exn + unit) \<times> 'w"
  postgresql_reload_config :: "'w \<Rightarrow> (exn + unit) \<times> 'w"
  postgresql_stop :: "bool \<Rightarrow> 'w \<Rightarrow> (exn + unit) \<times> 'w"
  postgresql_data_directory_empty :: "'w \<Rightarrow> (exn + bool) \<times> 'w"
  ha_run_cycle :: "'w \<Rightarrow> (exn + string) \<times> 'w"
  ha_is_paused :: "'w \<Rightarrow> (exn + bool) \<times> 'w"
  reap_children :: "'w \<Rightarrow> (exn + unit) \<times> 'w"

subsection \<open>Statements as state transformers\<close>

text \<open>
  A statement takes the state and yields the state it leaves behind, together with its
  value (\<open>Inr\<close>) or the exception it raised (\<open>Inl\<close>). An exception skips the rest of a
  sequence; the changes made before it stay.
\<close>

type_synonym ('w, 'a) action = "'w patroni \<Rightarrow> (exn + 'a) \<times> 'w patroni"

definition returns :: "'a \<Rightarrow> ('w, 'a) action" where
  "returns x s = (Inr x, s)"

definition raises :: "exn \<Rightarrow> ('w, 'a) action" where
  "raises e s = (Inl e, s)"

definition andthen :: "('w, 'a) action \<Rightarrow> ('a \<Rightarrow> ('w, 'b) action) \<Rightarrow> ('w, 'b) action" where
  "andthen m f s = (case m s of (Inl e, s') \<Rightarrow> (Inl e, s') | (Inr x, s') \<Rightarrow> f x s')"

text \<open>\<open>try: m  except C: h\<close>, where \<open>catches\<close> tells the exceptions of class \<open>C\<close>.\<close>

definition try_except :: "('w, 'a) action \<Rightarrow> (exn \<Rightarrow> bool) \<Rightarrow> ('w, 'a) action \<Rightarrow> ('w, 'a) action" where
  "try_except m catches h s =
     (case m s of
        (Inl e, s') \<Rightarrow> if catches e then h s' else (Inl e, s')
      | (Inr x, s') \<Rightarrow> (Inr x, s'))"

text \<open>A call of a collaborator's method: the call is recorded, the world moves on.\<close>

definition call :: "event \<Rightarrow> ('w \<Rightarrow> (exn + 'a) \<times> 'w) \<Rightarrow> ('w, 'a) action" where
  "call ev f s =
     (case f (world s) of (r, w') \<Rightarrow> (r, s\<lparr>world := w', trace := trace s @ [ev]\<rparr>))"

text \<open>The logger and \<open>time.sleep\<close> do not raise.\<close>

definition log :: "event \<Rightarrow> ('w, unit) action" where
  "log ev s = (Inr (), s\<lparr>trace := trace s @ [ev]\<rparr>)"

definition sleep :: "'w collaborators \<Rightarrow> real \<Rightarrow> ('w, unit) action" where
  "sleep env d s =
     (Inr (), s\<lparr>world := time_sleep env d (world s), trace := trace s @ [TimeSleep d]\<rparr>)"

definition current_time :: "'w collaborators \<Rightarrow> ('w, real) action" where
  "current_time env s = (case time_time env (world s) of (t, w') \<Rightarrow> (Inr t, s\<lparr>world := w'\<rparr>))"

subsection \<open>Tags\<close>

text \<open>
  \<^verbatim>\<open>
  def get_tags(self):
      return {tag: value for tag, value in self.config.get('tags', {}).items()
              if tag not in ('clonefrom', 'nofailover', 'noloadbalance') or value}
  \<close>
  The comprehension, as a function of the mapping \<open>self.config.get('tags', {})\<close>.
\<close>

definition get_tags :: "(string \<rightharpoonup> pyval) \<Rightarrow> (string \<rightharpoonup> pyval)" where
  "get_tags raw =
     (\<lambda>tag. case raw tag of
        None \<Rightarrow> None
      | Some v \<Rightarrow>
          if tag \<notin> set [''clonefrom'', ''nofailover'', ''noloadbalance''] \<or> truthy v
          then Some v else None)"

text \<open>\<open>self.tags.get(name, False)\<close> followed by \<open>bool\<close>.\<close>

definition tag_flag :: "(string \<rightharpoonup> pyval) \<Rightarrow> string \<Rightarrow> bool" where
  "tag_flag m name = truthy (case m name of None \<Rightarrow> PBool False | Some v \<Rightarrow> v)"

definition nofailover :: "'w patroni \<Rightarrow> bool" where
  "nofailover s = tag_flag (tags s) ''nofailover''"

definition noloadbalance :: "'w patroni \<Rightarrow> bool" where
  "noloadbalance s = tag_flag (tags s) ''noloadbalance''"

definition replicatefrom :: "'w patroni \<Rightarrow> pyval option" where
  "replicatefrom s = tags s ''replicatefrom''"

text \<open>The statement \<open>self.tags = self.get_tags()\<close>.\<close>

definition assign_tags :: "'w collaborators \<Rightarrow> ('w, unit) action" where
  "assign_tags env s = (Inr (), s\<lparr>tags := get_tags (config_get_tags env (world s))\<rparr>)"

subsection \<open>Signal handlers\<close>

text \<open>
  \<open>sighup_handler\<close> sets the flag. \<open>sigterm_handler\<close> sets its flag and calls
  \<open>sys.exit()\<close>, which raises \<open>SystemExit\<close>, the first time only.
\<close>

definition sighup_handler :: "('w, unit) action" where
  "sighup_handler s = (Inr (), s\<lparr>received_sighup := True\<rparr>)"

definition sigterm_handler :: "('w, unit) action" where
  "sigterm_handler s =
     (if \<not> received_sigterm s then (Inl SystemExit, s\<lparr>received_sigterm := True\<rparr>)
      else (Inr (), s))"

subsection \<open>Loading the dynamic configuration\<close>

text \<open>
  \<^verbatim>\<open>
  def load_dynamic_configuration(self):
      while True:
          try:
              cluster = self.dcs.get_cluster()
              if cluster and cluster.config:
                  if self.config.set_dynamic_configuration(cluster.config):
                      self.dcs.reload_config(self.config)
              elif not self.config.dynamic_configuration and 'bootstrap' in self.config:
                  if self.config.set_dynamic_configuration(self.config['bootstrap']['dcs']):
                      self.dcs.reload_config(self.config)
              break
          except DCSError:
              logger.warning('Can not get cluster from dcs')
  \<close>
  \<open>set_and_reload\<close> is the inner \<open>if\<close> that both branches share, \<open>load_attempt\<close> the
  body of the \<open>try\<close> up to the \<open>break\<close>.
\<close>

definition set_and_reload :: "'w collaborators \<Rightarrow> pyval \<Rightarrow> ('w, unit) action" where
  "set_and_reload env cfg =
     andthen (call (ConfigSetDynamicConfiguration cfg) (config_set_dynamic_configuration env cfg))
       (\<lambda>changed. if changed then call DcsReloadConfig (dcs_reload_config env) else returns ())"

text \<open>
  The value of \<open>cluster.config\<close> when \<open>cluster and cluster.config\<close> is true:
  \<open>get_cluster\<close> may yield \<open>None\<close>, and the configuration may be missing or empty.
\<close>

definition truthy_config :: "cluster option \<Rightarrow> pyval option" where
  "truthy_config c =
     (case c of
        None \<Rightarrow> None
      | Some cl \<Rightarrow> if truthy (config cl) then Some (config cl) else None)"

text \<open>The \<open>elif\<close> branch.\<close>

definition seed_from_bootstrap :: "'w collaborators \<Rightarrow> ('w, unit) action" where
  "seed_from_bootstrap env s =
     (if \<not> truthy (config_dynamic_configuration env (world s))
         \<and> config_contains_bootstrap env (world s)
      then (case config_bootstrap_dcs env (world s) of
              Inl e \<Rightarrow> raises e s
            | Inr cfg \<Rightarrow> set_and_reload env cfg s)
      else returns () s)"

definition load_attempt :: "'w collaborators \<Rightarrow> ('w, unit) action" where
  "load_attempt env =
     andthen (call DcsGetCluster (dcs_get_cluster env))
       (\<lambda>c. case truthy_config c of
          Some cfg \<Rightarrow> set_and_reload env cfg
        | None \<Rightarrow> seed_from_bootstrap env)"

text \<open>
  The loop may run forever, so the function is partial: \<open>None\<close> is the run that never
  leaves the loop. \<open>warn_retry\<close> is the handler of \<open>DCSError\<close>.
\<close>

definition warn_retry :: "'w patroni \<Rightarrow> 'w patroni" where
  "warn_retry s = snd (log (LogWarning ''Can not get cluster from dcs'') s)"

partial_function (option) load_dynamic_configuration ::
  "'w collaborators \<Rightarrow> 'w patroni \<Rightarrow> ((exn + unit) \<times> 'w patroni) option" where
  "load_dynamic_configuration env s =
     (case load_attempt env s of
        (Inr u, s') \<Rightarrow> Some (Inr u, s')
      | (Inl e, s') \<Rightarrow>
          if is_DCSError e then load_dynamic_configuration env (warn_retry s')
          else Some (Inl e, s'))"

text \<open>The state in which the attempt number \<open>n\<close> starts, counting from \<open>0\<close>.\<close>

fun retry_state :: "'w collaborators \<Rightarrow> nat \<Rightarrow> 'w patroni \<Rightarrow> 'w patroni" where
  "retry_state env 0 s = s"
| "retry_state env (Suc n) s = retry_state env n (warn_retry (snd (load_attempt env s)))"

subsection \<open>Reloading\<close>

text \<open>
  \<^verbatim>\<open>
  def reload_config(self):
      try:
          self.tags = self.get_tags()
          self.dcs.reload_config(self.config)
          self.api.reload_config(self.config['restapi'])
          self.postgresql.reload_config(self.config['postgresql'])
      except Exception:
          logger.exception('Failed to reload config_file=%s', self.config.config_file)
  \<close>
\<close>

definition reload_steps :: "'w collaborators \<Rightarrow> ('w, unit) action" where
  "reload_steps env =
     andthen (assign_tags env) (\<lambda>_.
     andthen (call DcsReloadConfig (dcs_reload_config env)) (\<lambda>_.
     andthen (call ApiReloadConfig (api_reload_config env)) (\<lambda>_.
     call PostgresqlReloadConfig (postgresql_reload_config env))))"

definition reload_config :: "'w collaborators \<Rightarrow> ('w, unit) action" where
  "reload_config env =
     try_except (reload_steps env) is_Exception
       (log (LogException ''Failed to reload config_file=%s''))"

subsection \<open>Saving the cache\<close>

text \<open>
  Modelled from the spec: \<open>Config.save_cache\<close> (\<open>persistCache\<close>), defined in
  patroni/config.py, which is not among the sources. The spec calls the step
  opportunistic and says of its failures: logged, non-fatal. So the method tries to write
  the cache, logs a failed write and returns in either case.
\<close>

definition save_cache :: "'w collaborators \<Rightarrow> ('w, unit) action" where
  "save_cache env s =
     (case config_write_cache env (world s) of
        (ok, w') \<Rightarrow>
          (let s' = s\<lparr>world := w', trace := trace s @ [ConfigSaveCache]\<rparr>
           in if ok then (Inr (), s')
              else log (LogException ''Exception when saving file'') s'))"

subsection \<open>Scheduling the next run\<close>

text \<open>
  \<^verbatim>\<open>
  def schedule_next_run(self):
      self.next_run += self.dcs.loop_wait
      current_time = time.time()
      nap_time = self.next_run - current_time
      if nap_time <= 0:
          self.next_run = current_time
          time.sleep(0.001)
          logger.warning("Loop time exceeded, rescheduling immediately.")
      elif self.dcs.watch(nap_time):
          self.next_run = time.time()
  \<close>
\<close>

definition advance_next_run :: "'w collaborators \<Rightarrow> ('w, unit) action" where
  "advance_next_run env s =
     (Inr (), s\<lparr>next_run := next_run s + dcs_loop_wait env (world s)\<rparr>)"

definition assign_next_run :: "real \<Rightarrow> ('w, unit) action" where
  "assign_next_run t s = (Inr (), s\<lparr>next_run := t\<rparr>)"

definition schedule_next_run :: "'w collaborators \<Rightarrow> ('w, unit) action" where
  "schedule_next_run env =
     andthen (advance_next_run env) (\<lambda>_.
     andthen (current_time env) (\<lambda>now. (\<lambda>s.
       (let nap_time = next_run s - now in
        if nap_time \<le> 0 then
          andthen (assign_next_run now) (\<lambda>_.
          andthen (sleep env (1 / 1000)) (\<lambda>_.
          log (LogWarning ''Loop time exceeded, rescheduling immediately.''))) s
        else
          andthen (call (DcsWatch nap_time) (dcs_watch env nap_time)) (\<lambda>changed.
            if changed then andthen (current_time env) (\<lambda>t. assign_next_run t)
            else returns ()) s))))"

subsection \<open>The main cycle\<close>

text \<open>
  \<^verbatim>\<open>
  def run(self):
      self.api.start()
      self.next_run = time.time()

      while not self._received_sigterm:
          if self._received_sighup:
              self._received_sighup = False
              if self.config.reload_local_configuration():
                  self.reload_config()

          logger.info(self.ha.run_cycle())

          cluster = self.dcs.cluster
          if cluster and cluster.config and self.config.set_dynamic_configuration(cluster.config):
              self.reload_config()

          if not self.postgresql.data_directory_empty():
              self.config.save_cache()

          reap_children()
          self.schedule_next_run()
  \<close>
  \<open>run_tick\<close> is the body of the loop, cut into its six steps.
\<close>

definition tick_sighup :: "'w collaborators \<Rightarrow> ('w, unit) action" where
  "tick_sighup env s =
     (if received_sighup s then
        andthen (call ConfigReloadLocalConfiguration (config_reload_local_configuration env))
          (\<lambda>changed. if changed then reload_config env else returns ())
          (s\<lparr>received_sighup := False\<rparr>)
      else returns () s)"

definition tick_ha :: "'w collaborators \<Rightarrow> ('w, unit) action" where
  "tick_ha env = andthen (call HaRunCycle (ha_run_cycle env)) (\<lambda>msg. log (LogInfo msg))"

definition tick_cluster :: "'w collaborators \<Rightarrow> ('w, unit) action" where
  "tick_cluster env s =
     (case truthy_config (dcs_cluster env (world s)) of
        None \<Rightarrow> returns () s
      | Some cfg \<Rightarrow>
          andthen
            (call (ConfigSetDynamicConfiguration cfg) (config_set_dynamic_configuration env cfg))
            (\<lambda>changed. if changed then reload_config env else returns ()) s)"

definition tick_cache :: "'w collaborators \<Rightarrow> ('w, unit) action" where
  "tick_cache env =
     andthen (call PostgresqlDataDirectoryEmpty (postgresql_data_directory_empty env))
       (\<lambda>empty. if \<not> empty then save_cache env else returns ())"

definition tick_rest :: "'w collaborators \<Rightarrow> ('w, unit) action" where
  "tick_rest env =
     andthen (call ReapChildren (reap_children env)) (\<lambda>_. schedule_next_run env)"

text \<open>The rest of the body from each step on.\<close>

definition tick_from_cache :: "'w collaborators \<Rightarrow> ('w, unit) action" where
  "tick_from_cache env = andthen (tick_cache env) (\<lambda>_. tick_rest env)"

definition tick_from_cluster :: "'w collaborators \<Rightarrow> ('w, unit) action" where
  "tick_from_cluster env = andthen (tick_cluster env) (\<lambda>_. tick_from_cache env)"

definition tick_from_ha :: "'w collaborators \<Rightarrow> ('w, unit) action" where
  "tick_from_ha env = andthen (tick_ha env) (\<lambda>_. tick_from_cluster env)"

definition run_tick :: "'w collaborators \<Rightarrow> ('w, unit) action" where
  "run_tick env = andthen (tick_sighup env) (\<lambda>_. tick_from_ha env)"

partial_function (option) run_loop ::
  "'w collaborators \<Rightarrow> 'w patroni \<Rightarrow> ((exn + unit) \<times> 'w patroni) option" where
  "run_loop env s =
     (if received_sigterm s then Some (Inr (), s)
      else (case run_tick env s of
              (Inl e, s') \<Rightarrow> Some (Inl e, s')
            | (Inr u, s') \<Rightarrow> run_loop env s'))"

definition run :: "'w collaborators \<Rightarrow> 'w patroni \<Rightarrow> ((exn + unit) \<times> 'w patroni) option" where
  "run env s =
     (case andthen (call ApiStart (api_start env)) (\<lambda>_.
           andthen (current_time env) (\<lambda>t. assign_next_run t)) s of
        (Inl e, s') \<Rightarrow> Some (Inl e, s')
      | (Inr u, s') \<Rightarrow> run_loop env s')"

subsection \<open>Shutting down\<close>

text \<open>
  The \<open>finally\<close> block of \<open>main\<close>:
  \<^verbatim>\<open>
  finally:
      patroni.api.shutdown()
      if patroni.ha.is_paused():
          logger.info('Leader key is not deleted and Postgresql is not stopped due paused state')
      else:
          patroni.postgresql.stop(checkpoint=False)
          patroni.dcs.delete_leader()
  \<close>
\<close>

definition main_finally :: "'w collaborators \<Rightarrow> ('w, unit) action" where
  "main_finally env =
     andthen (call ApiShutdown (api_shutdown env)) (\<lambda>_.
     andthen (call HaIsPaused (ha_is_paused env)) (\<lambda>paused.
       if paused then
         log (LogInfo
           ''Leader key is not deleted and Postgresql is not stopped due paused state'')
       else
         andthen (call (PostgresqlStop False) (postgresql_stop env False)) (\<lambda>_.
         call DcsDeleteLeader (dcs_delete_leader env))))"

subsection \<open>Assumptions on collaborators\<close>

text \<open>
  \<open>never_raises f\<close>: the method returns a value in every world.
  \<open>raises_only_exceptions f\<close>: what it raises, if anything, derives from \<open>Exception\<close>.
  \<open>steady env\<close>: the methods that a tick calls outside \<open>reload_config\<close> return.
  \<open>reload_failures_ordinary env\<close>: the three methods that \<open>reload_config\<close> calls
  fail, if they fail, with a subclass of \<open>Exception\<close>.
  \<open>unchanged_sigterm act\<close>: the statement returns and leaves the termination flag alone.
\<close>

definition never_raises :: "('w \<Rightarrow> (exn + 'a) \<times> 'w) \<Rightarrow> bool" where
  "never_raises f = (\<forall>w. \<exists>x. fst (f w) = Inr x)"

definition raises_only_exceptions :: "('w \<Rightarrow> (exn + 'a) \<times> 'w) \<Rightarrow> bool" where
  "raises_only_exceptions f = (\<forall>w e. fst (f w) = Inl e \<longrightarrow> is_Exception e)"

definition steady :: "'w collaborators \<Rightarrow> bool" where
  "steady env =
     (never_raises (config_reload_local_configuration env)
      \<and> never_raises (ha_run_cycle env)
      \<and> (\<forall>cfg. never_raises (config_set_dynamic_configuration env cfg))
      \<and> never_raises (postgresql_data_directory_empty env)
      \<and> never_raises (reap_children env)
      \<and> (\<forall>d. never_raises (dcs_watch env d)))"

definition reload_failures_ordinary :: "'w collaborators \<Rightarrow> bool" where
  "reload_failures_ordinary env =
     (raises_only_exceptions (dcs_reload_config env)
      \<and> raises_only_exceptions (api_reload_config env)
      \<and> raises_only_exceptions (postgresql_reload_config env))"

definition unchanged_sigterm :: "('w, 'a) action \<Rightarrow> bool" where
  "unchanged_sigterm act =
     (\<forall>s. \<exists>x s'. act s = (Inr x, s') \<and> received_sigterm s' = received_sigterm s)"

text \<open>
  \<open>fails_ordinarily act\<close>: the statement leaves the termination flag alone, and
  what it raises, if anything, derives from \<open>Exception\<close>.
\<close>

definition fails_ordinarily :: "('w, 'a) action \<Rightarrow> bool" where
  "fails_ordinarily act =
     (\<forall>s. received_sigterm (snd (act s)) = received_sigterm s
          \<and> (\<forall>e. fst (act s) = Inl e \<longrightarrow> is_Exception e))"

fun is_delete_leader :: "event \<Rightarrow> bool" where
  "is_delete_leader DcsDeleteLeader = True"
| "is_delete_leader e = False"

subsection \<open>A concrete set of collaborators\<close>

text \<open>
  Collaborators to run the definitions on. The world is a clock in whole seconds;
  in \<open>calm\<close> every method returns at once, nothing is paused, the data directory is
  initialised, \<open>loop_wait\<close> is ten seconds and the DCS holds no cluster. A run starts
  in \<open>at_rest anchor w\<close>: no signal received, \<open>next_run = anchor\<close>, the clock at \<open>w\<close>.
\<close>

definition calm :: "nat collaborators" where
  "calm =
     \<lparr> time_time = (\<lambda>w. (real w, w)),
       time_sleep = (\<lambda>d w. w),
       dcs_get_cluster = (\<lambda>w. (Inr None, w)),
       dcs_reload_config = (\<lambda>w. (Inr (), w)),
       dcs_loop_wait = (\<lambda>w. 10),
       dcs_cluster = (\<lambda>w. None),
       dcs_watch = (\<lambda>d w. (Inr False, w)),
       dcs_delete_leader = (\<lambda>w. (Inr (), w)),
       config_get_tags = (\<lambda>w. Map.empty),
       config_dynamic_configuration = (\<lambda>w. PDict []),
       config_contains_bootstrap = (\<lambda>w. False),
       config_bootstrap_dcs = (\<lambda>w. Inl KeyError),
       config_set_dynamic_configuration = (\<lambda>cfg w. (Inr True, w)),
       config_reload_local_configuration = (\<lambda>w. (Inr True, w)),
       config_write_cache = (\<lambda>w. (True, w)),
       api_start = (\<lambda>w. (Inr (), w)),
       api_shutdown = (\<lambda>w. (Inr (), w)),
       api_reload_config = (\<lambda>w. (Inr (), w)),
       postgresql_reload_config = (\<lambda>w. (Inr (), w)),
       postgresql_stop = (\<lambda>c w. (Inr (), w)),
       postgresql_data_directory_empty = (\<lambda>w. (Inr False, w)),
       ha_run_cycle = (\<lambda>w. (Inr ''no action'', w)),
       ha_is_paused = (\<lambda>w. (Inr False, w)),
       reap_children = (\<lambda>w. (Inr (), w)) \<rparr>"

definition at_rest :: "real \<Rightarrow> nat \<Rightarrow> nat patroni" where
  "at_rest anchor w =
     \<lparr> received_sighup = False, received_sigterm = False, tags = Map.empty,
       next_run = anchor, world = w, trace = [] \<rparr>"

text \<open>
  \<open>flaky\<close>: the DCS is unreachable for the first two fetches, each of which takes a
  second. \<open>seeding dcs\<close>: the local configuration has a bootstrap section whose \<open>dcs\<close>
  entry is \<open>dcs\<close>, and \<open>set_dynamic_configuration\<close> reports a change when its argument
  differs from the dynamic configuration held so far.
\<close>

definition flaky :: "nat collaborators" where
  "flaky = calm\<lparr>dcs_get_cluster :=
             (\<lambda>w. if w < 2 then (Inl DCSError, Suc w) else (Inr None, w))\<rparr>"

definition seeding :: "pyval \<Rightarrow> nat collaborators" where
  "seeding dcs = calm\<lparr>config_contains_bootstrap := (\<lambda>w. True),
                       config_bootstrap_dcs := (\<lambda>w. Inr dcs),
                       config_set_dynamic_configuration :=
                         (\<lambda>cfg w. (Inr (cfg \<noteq> config_dynamic_configuration calm w), w))\<rparr>"

section \<open>Properties\<close>

lemmas action_defs = andthen_def returns_def raises_def call_def log_def sleep_def
  current_time_def advance_next_run_def assign_next_run_def

subsection \<open>Derived tags\<close>

text \<open>
  C9. For every raw mapping and every name, \<open>get_tags\<close> drops the entry exactly when
  the name is one of \<open>clonefrom\<close>, \<open>nofailover\<close>, \<open>noloadbalance\<close> and the value
  is falsy; in every other case the lookup in the result is the lookup in the raw
  mapping, so entries with a truthy value and entries with any other name pass through
  unchanged, and nothing is added.
\<close>

theorem get_tags_drops_exactly_falsy_reserved:
  "get_tags raw tag =
     (if tag \<in> {''clonefrom'', ''nofailover'', ''noloadbalance''}
         \<and> (\<exists>v. raw tag = Some v \<and> \<not> truthy v)
      then None else raw tag)"
  by (auto simp add: get_tags_def split: option.split)

theorem get_tags_drops_exactly_falsy_reserved_witness:
  "get_tags [''nofailover'' \<mapsto> PBool False, ''role'' \<mapsto> PInt 0, ''clonefrom'' \<mapsto> PBool True]
     ''nofailover'' = None
   \<and> get_tags [''nofailover'' \<mapsto> PBool False, ''role'' \<mapsto> PInt 0, ''clonefrom'' \<mapsto> PBool True]
     ''role'' = Some (PInt 0)
   \<and> get_tags [''nofailover'' \<mapsto> PBool False, ''role'' \<mapsto> PInt 0, ''clonefrom'' \<mapsto> PBool True]
     ''clonefrom'' = Some (PBool True)"
  using get_tags_drops_exactly_falsy_reserved
      [of "[''nofailover'' \<mapsto> PBool False, ''role'' \<mapsto> PInt 0, ''clonefrom'' \<mapsto> PBool True]"
          "''nofailover''"]
    get_tags_drops_exactly_falsy_reserved
      [of "[''nofailover'' \<mapsto> PBool False, ''role'' \<mapsto> PInt 0, ''clonefrom'' \<mapsto> PBool True]"
          "''role''"]
    get_tags_drops_exactly_falsy_reserved
      [of "[''nofailover'' \<mapsto> PBool False, ''role'' \<mapsto> PInt 0, ''clonefrom'' \<mapsto> PBool True]"
          "''clonefrom''"]
  by simp

lemma tag_flag_get_tags: "tag_flag (get_tags raw) name = tag_flag raw name"
  by (auto simp add: tag_flag_def get_tags_def split: option.split)

text \<open>
  C10. With \<open>self.tags\<close> set to the filtered tags of a raw mapping, \<open>nofailover\<close>
  and \<open>noloadbalance\<close> are the truth values of the raw entries of these names
  (\<open>False\<close> when the entry is absent), which is also what they would be over the
  unfiltered mapping.
\<close>

theorem derived_flags_unchanged_by_filtering:
  "nofailover (s\<lparr>tags := get_tags raw\<rparr>)
     = (case raw ''nofailover'' of None \<Rightarrow> False | Some v \<Rightarrow> truthy v)
   \<and> noloadbalance (s\<lparr>tags := get_tags raw\<rparr>)
     = (case raw ''noloadbalance'' of None \<Rightarrow> False | Some v \<Rightarrow> truthy v)
   \<and> nofailover (s\<lparr>tags := get_tags raw\<rparr>) = nofailover (s\<lparr>tags := raw\<rparr>)
   \<and> noloadbalance (s\<lparr>tags := get_tags raw\<rparr>) = noloadbalance (s\<lparr>tags := raw\<rparr>)"
  by (simp add: nofailover_def noloadbalance_def tag_flag_get_tags)
     (simp add: tag_flag_def split: option.split)

theorem derived_flags_unchanged_by_filtering_witness:
  "nofailover (at_rest 0 0\<lparr>tags := get_tags [''nofailover'' \<mapsto> PInt 0, ''noloadbalance'' \<mapsto> PStr ''yes'']\<rparr>)
     = False
   \<and> noloadbalance (at_rest 0 0\<lparr>tags := get_tags [''nofailover'' \<mapsto> PInt 0, ''noloadbalance'' \<mapsto> PStr ''yes'']\<rparr>)
     = True"
  using derived_flags_unchanged_by_filtering
      [where s = "at_rest 0 0"
         and raw = "[''nofailover'' \<mapsto> PInt 0, ''noloadbalance'' \<mapsto> PStr ''yes'']"]
  by simp

subsection \<open>The next run\<close>

text \<open>
  C2. Let \<open>now\<close> be the clock reading that \<open>schedule_next_run\<close> takes. If the time
  since the anchor \<open>next_run\<close> is less than \<open>loop_wait\<close> and the watch on the DCS
  returns \<open>False\<close>, the call returns with \<open>next_run\<close> advanced by exactly
  \<open>loop_wait\<close>: the new anchor does not depend on \<open>now\<close>, so no drift builds up.
\<close>

theorem schedule_next_run_on_time:
  assumes "time_time env (world s) = (now, w1)"
      and "now - next_run s < dcs_loop_wait env (world s)"
      and "dcs_watch env (next_run s + dcs_loop_wait env (world s) - now) w1 = (Inr False, w2)"
  shows "schedule_next_run env s =
           (Inr (), s\<lparr>next_run := next_run s + dcs_loop_wait env (world s), world := w2,
                      trace := trace s @ [DcsWatch (next_run s + dcs_loop_wait env (world s) - now)]\<rparr>)
         \<and> next_run (snd (schedule_next_run env s)) = next_run s + dcs_loop_wait env (world s)"
  using assms by (simp add: schedule_next_run_def action_defs Let_def)

theorem schedule_next_run_on_time_witness:
  "time_time calm (world (at_rest 100 104)) = (104, 104)
   \<and> (104::real) - next_run (at_rest 100 104) < dcs_loop_wait calm (world (at_rest 100 104))
   \<and> dcs_watch calm (next_run (at_rest 100 104) + dcs_loop_wait calm (world (at_rest 100 104)) - 104) 104
       = (Inr False, 104)
   \<and> next_run (snd (schedule_next_run calm (at_rest 100 104))) = 110"
proof -
  have a: "time_time calm (world (at_rest 100 104)) = (104, 104)"
    by (simp add: calm_def at_rest_def)
  have b: "(104::real) - next_run (at_rest 100 104) < dcs_loop_wait calm (world (at_rest 100 104))"
    by (simp add: calm_def at_rest_def)
  have c: "dcs_watch calm (next_run (at_rest 100 104) + dcs_loop_wait calm (world (at_rest 100 104)) - 104) 104
             = (Inr False, 104)"
    by (simp add: calm_def at_rest_def)
  show ?thesis
    using a b c schedule_next_run_on_time [OF a b c] by (simp add: calm_def at_rest_def)
qed

text \<open>
  C3. If the clock reading \<open>now\<close> is at or past \<open>next_run + loop_wait\<close>,
  \<open>schedule_next_run\<close> returns with \<open>next_run = now\<close>, which is not before the
  time the run was due; it sleeps for a millisecond, logs one warning, and does not watch
  the DCS.
\<close>

theorem schedule_next_run_overrun:
  assumes "time_time env (world s) = (now, w1)"
      and "next_run s + dcs_loop_wait env (world s) \<le> now"
  shows "schedule_next_run env s =
           (Inr (), s\<lparr>next_run := now, world := time_sleep env (1 / 1000) w1,
                      trace := trace s @ [TimeSleep (1 / 1000),
                        LogWarning ''Loop time exceeded, rescheduling immediately.'']\<rparr>)
         \<and> next_run (snd (schedule_next_run env s)) = now
         \<and> next_run s + dcs_loop_wait env (world s) \<le> next_run (snd (schedule_next_run env s))
         \<and> occurrences is_warning (trace (snd (schedule_next_run env s)))
             = occurrences is_warning (trace s) + 1
         \<and> occurrences is_sleep (trace (snd (schedule_next_run env s)))
             = occurrences is_sleep (trace s) + 1
         \<and> occurrences is_watch (trace (snd (schedule_next_run env s)))
             = occurrences is_watch (trace s)"
  using assms by (simp add: schedule_next_run_def action_defs Let_def occurrences_def)

theorem schedule_next_run_overrun_witness:
  "time_time calm (world (at_rest 100 112)) = (112, 112)
   \<and> next_run (at_rest 100 112) + dcs_loop_wait calm (world (at_rest 100 112)) \<le> (112::real)
   \<and> next_run (snd (schedule_next_run calm (at_rest 100 112))) = 112
   \<and> trace (snd (schedule_next_run calm (at_rest 100 112)))
       = [TimeSleep (1 / 1000), LogWarning ''Loop time exceeded, rescheduling immediately.'']"
proof -
  have a: "time_time calm (world (at_rest 100 112)) = (112, 112)"
    by (simp add: calm_def at_rest_def)
  have b: "next_run (at_rest 100 112) + dcs_loop_wait calm (world (at_rest 100 112)) \<le> (112::real)"
    by (simp add: calm_def at_rest_def)
  show ?thesis
    using a b schedule_next_run_overrun [OF a b] by (simp add: at_rest_def)
qed

text \<open>
  C4. If the run is not overdue and the watch on the DCS returns \<open>True\<close>,
  \<open>schedule_next_run\<close> returns with \<open>next_run\<close> set to the clock reading taken
  after the watch returned.
\<close>

theorem schedule_next_run_early_wake:
  assumes "time_time env (world s) = (now, w1)"
      and "now < next_run s + dcs_loop_wait env (world s)"
      and "dcs_watch env (next_run s + dcs_loop_wait env (world s) - now) w1 = (Inr True, w2)"
      and "time_time env w2 = (woken, w3)"
  shows "schedule_next_run env s =
           (Inr (), s\<lparr>next_run := woken, world := w3,
                      trace := trace s @ [DcsWatch (next_run s + dcs_loop_wait env (world s) - now)]\<rparr>)
         \<and> next_run (snd (schedule_next_run env s)) = woken"
  using assms by (simp add: schedule_next_run_def action_defs Let_def)

theorem schedule_next_run_early_wake_witness:
  "time_time (calm\<lparr>dcs_watch := (\<lambda>d w. (Inr True, w + 3))\<rparr>) (world (at_rest 100 104)) = (104, 104)
   \<and> (104::real) < next_run (at_rest 100 104)
        + dcs_loop_wait (calm\<lparr>dcs_watch := (\<lambda>d w. (Inr True, w + 3))\<rparr>) (world (at_rest 100 104))
   \<and> dcs_watch (calm\<lparr>dcs_watch := (\<lambda>d w. (Inr True, w + 3))\<rparr>)
        (next_run (at_rest 100 104)
           + dcs_loop_wait (calm\<lparr>dcs_watch := (\<lambda>d w. (Inr True, w + 3))\<rparr>) (world (at_rest 100 104))
           - 104) 104 = (Inr True, 107)
   \<and> time_time (calm\<lparr>dcs_watch := (\<lambda>d w. (Inr True, w + 3))\<rparr>) 107 = (107, 107)
   \<and> next_run (snd (schedule_next_run (calm\<lparr>dcs_watch := (\<lambda>d w. (Inr True, w + 3))\<rparr>)
        (at_rest 100 104))) = 107"
proof -
  let ?env = "calm\<lparr>dcs_watch := (\<lambda>d w. (Inr True, w + 3))\<rparr>"
  have a: "time_time ?env (world (at_rest 100 104)) = (104, 104)"
    by (simp add: calm_def at_rest_def)
  have b: "(104::real) < next_run (at_rest 100 104) + dcs_loop_wait ?env (world (at_rest 100 104))"
    by (simp add: calm_def at_rest_def)
  have c: "dcs_watch ?env
             (next_run (at_rest 100 104) + dcs_loop_wait ?env (world (at_rest 100 104)) - 104) 104
           = (Inr True, 107)"
    by (simp add: calm_def at_rest_def)
  have d: "time_time ?env 107 = (107, 107)"
    by (simp add: calm_def)
  show ?thesis
    using a b c d schedule_next_run_early_wake [OF a b c d] by simp
qed

subsection \<open>The shutdown sequence\<close>

lemma main_finally_paused:
  assumes "api_shutdown env (world s) = (Inr (), w1)"
      and "ha_is_paused env w1 = (Inr True, w2)"
  shows "main_finally env s =
           (Inr (), s\<lparr>world := w2, trace := trace s @ [ApiShutdown, HaIsPaused,
              LogInfo ''Leader key is not deleted and Postgresql is not stopped due paused state'']\<rparr>)"
  using assms by (simp add: main_finally_def action_defs)

lemma main_finally_not_paused:
  assumes "api_shutdown env (world s) = (Inr (), w1)"
      and "ha_is_paused env w1 = (Inr False, w2)"
      and "postgresql_stop env False w2 = (Inr (), w3)"
      and "dcs_delete_leader env w3 = (r, w4)"
  shows "main_finally env s =
           (r, s\<lparr>world := w4, trace := trace s @ [ApiShutdown, HaIsPaused,
              PostgresqlStop False, DcsDeleteLeader]\<rparr>)"
  using assms by (simp add: main_finally_def action_defs)

lemma main_finally_stop_failed:
  assumes "api_shutdown env (world s) = (Inr (), w1)"
      and "ha_is_paused env w1 = (Inr False, w2)"
      and "postgresql_stop env False w2 = (Inl e, w3)"
  shows "main_finally env s =
           (Inl e, s\<lparr>world := w3, trace := trace s @ [ApiShutdown, HaIsPaused,
              PostgresqlStop False]\<rparr>)"
  using assms by (simp add: main_finally_def action_defs)

text \<open>
  The \<open>finally\<close> block has no handler of its own. When \<open>is_paused\<close> answers
  \<open>False\<close> and \<open>stop\<close> raises, the exception leaves the block after the stop and
  \<open>delete_leader\<close> is not called.
\<close>

theorem shutdown_stop_raises_counterexample:
  "api_shutdown (calm\<lparr>postgresql_stop := (\<lambda>c w. (Inl OtherException, w + 10))\<rparr>)
       (world (at_rest 100 104)) = (Inr (), 104)
   \<and> ha_is_paused (calm\<lparr>postgresql_stop := (\<lambda>c w. (Inl OtherException, w + 10))\<rparr>) 104
       = (Inr False, 104)
   \<and> main_finally (calm\<lparr>postgresql_stop := (\<lambda>c w. (Inl OtherException, w + 10))\<rparr>)
       (at_rest 100 104)
       = (Inl OtherException,
          at_rest 100 104\<lparr>world := 114, trace := [ApiShutdown, HaIsPaused, PostgresqlStop False]\<rparr>)
   \<and> occurrences is_delete_leader
         (trace (snd (main_finally
            (calm\<lparr>postgresql_stop := (\<lambda>c w. (Inl OtherException, w + 10))\<rparr>)
            (at_rest 100 104)))) = 0"
  by (simp add: main_finally_def action_defs occurrences_def calm_def at_rest_def)

text \<open>
  C1, amended. Suppose the REST API has shut down and \<open>is_paused\<close> has answered.
  \<^item> If the answer is \<open>True\<close>, the \<open>finally\<close> block only logs: it issues no stop
    of PostgreSQL and no deletion of the leader key, and leaves the world as
    \<open>is_paused\<close> left it.
  \<^item> If the answer is \<open>False\<close> and \<open>stop(checkpoint=False)\<close> returns, the block
    has called the stop once and then \<open>delete_leader\<close> once, each on the world its
    predecessor left, and ends as \<open>delete_leader\<close> ends.
  \<^item> If the answer is \<open>False\<close> and the stop raises, the block has called the stop
    once, ends with that exception and has not called \<open>delete_leader\<close>.
\<close>

theorem shutdown_respects_pause:
  assumes "api_shutdown env (world s) = (Inr (), w1)"
      and "ha_is_paused env w1 = (Inr paused, w2)"
  shows "(paused \<longrightarrow>
            main_finally env s =
              (Inr (), s\<lparr>world := w2, trace := trace s @ [ApiShutdown, HaIsPaused,
                 LogInfo ''Leader key is not deleted and Postgresql is not stopped due paused state'']\<rparr>)
          \<and> occurrences is_stop (trace (snd (main_finally env s))) = occurrences is_stop (trace s)
          \<and> occurrences is_delete_leader (trace (snd (main_finally env s)))
              = occurrences is_delete_leader (trace s))
       \<and> (\<not> paused \<and> postgresql_stop env False w2 = (Inr (), w3)
           \<and> dcs_delete_leader env w3 = (deleted, w4) \<longrightarrow>
            main_finally env s =
              (deleted, s\<lparr>world := w4, trace := trace s @ [ApiShutdown, HaIsPaused,
                 PostgresqlStop False, DcsDeleteLeader]\<rparr>)
          \<and> occurrences is_stop (trace (snd (main_finally env s))) = occurrences is_stop (trace s) + 1
          \<and> occurrences is_delete_leader (trace (snd (main_finally env s)))
              = occurrences is_delete_leader (trace s) + 1)
       \<and> (\<not> paused \<and> postgresql_stop env False w2 = (Inl e, w5) \<longrightarrow>
            main_finally env s =
              (Inl e, s\<lparr>world := w5, trace := trace s @ [ApiShutdown, HaIsPaused,
                 PostgresqlStop False]\<rparr>)
          \<and> occurrences is_stop (trace (snd (main_finally env s))) = occurrences is_stop (trace s) + 1
          \<and> occurrences is_delete_leader (trace (snd (main_finally env s)))
              = occurrences is_delete_leader (trace s))"
proof -
  have when_paused: "paused \<longrightarrow>
            main_finally env s =
              (Inr (), s\<lparr>world := w2, trace := trace s @ [ApiShutdown, HaIsPaused,
                 LogInfo ''Leader key is not deleted and Postgresql is not stopped due paused state'']\<rparr>)
          \<and> occurrences is_stop (trace (snd (main_finally env s))) = occurrences is_stop (trace s)
          \<and> occurrences is_delete_leader (trace (snd (main_finally env s)))
              = occurrences is_delete_leader (trace s)"
  proof
    assume paused
    with assms have "main_finally env s =
              (Inr (), s\<lparr>world := w2, trace := trace s @ [ApiShutdown, HaIsPaused,
                 LogInfo ''Leader key is not deleted and Postgresql is not stopped due paused state'']\<rparr>)"
      by (simp add: main_finally_paused)
    then show "main_finally env s =
              (Inr (), s\<lparr>world := w2, trace := trace s @ [ApiShutdown, HaIsPaused,
                 LogInfo ''Leader key is not deleted and Postgresql is not stopped due paused state'']\<rparr>)
          \<and> occurrences is_stop (trace (snd (main_finally env s))) = occurrences is_stop (trace s)
          \<and> occurrences is_delete_leader (trace (snd (main_finally env s)))
              = occurrences is_delete_leader (trace s)"
      by (simp add: occurrences_def)
  qed
  have when_stopped: "\<not> paused \<and> postgresql_stop env False w2 = (Inr (), w3)
           \<and> dcs_delete_leader env w3 = (deleted, w4) \<longrightarrow>
            main_finally env s =
              (deleted, s\<lparr>world := w4, trace := trace s @ [ApiShutdown, HaIsPaused,
                 PostgresqlStop False, DcsDeleteLeader]\<rparr>)
          \<and> occurrences is_stop (trace (snd (main_finally env s))) = occurrences is_stop (trace s) + 1
          \<and> occurrences is_delete_leader (trace (snd (main_finally env s)))
              = occurrences is_delete_leader (trace s) + 1"
  proof
    assume "\<not> paused \<and> postgresql_stop env False w2 = (Inr (), w3)
           \<and> dcs_delete_leader env w3 = (deleted, w4)"
    with assms have "main_finally env s =
              (deleted, s\<lparr>world := w4, trace := trace s @ [ApiShutdown, HaIsPaused,
                 PostgresqlStop False, DcsDeleteLeader]\<rparr>)"
      by (simp add: main_finally_not_paused)
    then show "main_finally env s =
              (deleted, s\<lparr>world := w4, trace := trace s @ [ApiShutdown, HaIsPaused,
                 PostgresqlStop False, DcsDeleteLeader]\<rparr>)
          \<and> occurrences is_stop (trace (snd (main_finally env s))) = occurrences is_stop (trace s) + 1
          \<and> occurrences is_delete_leader (trace (snd (main_finally env s)))
              = occurrences is_delete_leader (trace s) + 1"
      by (simp add: occurrences_def)
  qed
  have when_stop_raised: "\<not> paused \<and> postgresql_stop env False w2 = (Inl e, w5) \<longrightarrow>
            main_finally env s =
              (Inl e, s\<lparr>world := w5, trace := trace s @ [ApiShutdown, HaIsPaused,
                 PostgresqlStop False]\<rparr>)
          \<and> occurrences is_stop (trace (snd (main_finally env s))) = occurrences is_stop (trace s) + 1
          \<and> occurrences is_delete_leader (trace (snd (main_finally env s)))
              = occurrences is_delete_leader (trace s)"
  proof
    assume "\<not> paused \<and> postgresql_stop env False w2 = (Inl e, w5)"
    with assms have "main_finally env s =
              (Inl e, s\<lparr>world := w5, trace := trace s @ [ApiShutdown, HaIsPaused,
                 PostgresqlStop False]\<rparr>)"
      by (simp add: main_finally_stop_failed)
    then show "main_finally env s =
              (Inl e, s\<lparr>world := w5, trace := trace s @ [ApiShutdown, HaIsPaused,
                 PostgresqlStop False]\<rparr>)
          \<and> occurrences is_stop (trace (snd (main_finally env s))) = occurrences is_stop (trace s) + 1
          \<and> occurrences is_delete_leader (trace (snd (main_finally env s)))
              = occurrences is_delete_leader (trace s)"
      by (simp add: occurrences_def)
  qed
  from when_paused when_stopped when_stop_raised show ?thesis
    by (intro conjI)
qed

theorem shutdown_respects_pause_witness:
  "api_shutdown (calm\<lparr>api_shutdown := (\<lambda>w. (Inr (), w + 1)),
                      postgresql_stop := (\<lambda>c w. (Inr (), w + 10))\<rparr>) (world (at_rest 100 104))
     = (Inr (), 105)
   \<and> ha_is_paused (calm\<lparr>api_shutdown := (\<lambda>w. (Inr (), w + 1)),
                        postgresql_stop := (\<lambda>c w. (Inr (), w + 10))\<rparr>) 105 = (Inr False, 105)
   \<and> postgresql_stop (calm\<lparr>api_shutdown := (\<lambda>w. (Inr (), w + 1)),
                          postgresql_stop := (\<lambda>c w. (Inr (), w + 10))\<rparr>) False 105 = (Inr (), 115)
   \<and> dcs_delete_leader (calm\<lparr>api_shutdown := (\<lambda>w. (Inr (), w + 1)),
                            postgresql_stop := (\<lambda>c w. (Inr (), w + 10))\<rparr>) 115 = (Inr (), 115)
   \<and> main_finally (calm\<lparr>api_shutdown := (\<lambda>w. (Inr (), w + 1)),
                       postgresql_stop := (\<lambda>c w. (Inr (), w + 10))\<rparr>) (at_rest 100 104)
       = (Inr (), at_rest 100 104\<lparr>world := 115,
            trace := [ApiShutdown, HaIsPaused, PostgresqlStop False, DcsDeleteLeader]\<rparr>)
   \<and> ha_is_paused (calm\<lparr>api_shutdown := (\<lambda>w. (Inr (), w + 1)),
                        ha_is_paused := (\<lambda>w. (Inr True, w))\<rparr>) 105 = (Inr True, 105)
   \<and> main_finally (calm\<lparr>api_shutdown := (\<lambda>w. (Inr (), w + 1)),
                       ha_is_paused := (\<lambda>w. (Inr True, w))\<rparr>) (at_rest 100 104)
       = (Inr (), at_rest 100 104\<lparr>world := 105,
            trace := [ApiShutdown, HaIsPaused,
              LogInfo ''Leader key is not deleted and Postgresql is not stopped due paused state'']\<rparr>)"
proof -
  let ?env = "calm\<lparr>api_shutdown := (\<lambda>w. (Inr (), w + 1)),
                   postgresql_stop := (\<lambda>c w. (Inr (), w + 10))\<rparr>"
  let ?paused = "calm\<lparr>api_shutdown := (\<lambda>w. (Inr (), w + 1)),
                      ha_is_paused := (\<lambda>w. (Inr True, w))\<rparr>"
  have a: "api_shutdown ?env (world (at_rest 100 104)) = (Inr (), 105)"
    by (simp add: at_rest_def)
  have b: "ha_is_paused ?env 105 = (Inr False, 105)"
    by (simp add: calm_def)
  have c: "postgresql_stop ?env False 105 = (Inr (), 115)"
    by simp
  have d: "dcs_delete_leader ?env 115 = (Inr (), 115)"
    by (simp add: calm_def)
  have a': "api_shutdown ?paused (world (at_rest 100 104)) = (Inr (), 105)"
    by (simp add: at_rest_def)
  have b': "ha_is_paused ?paused 105 = (Inr True, 105)"
    by simp
  from shutdown_respects_pause
         [OF a b, where ?w3.0 = 115 and ?w4.0 = 115 and deleted = "Inr ()"] c d
  have q: "main_finally ?env (at_rest 100 104)
       = (Inr (), at_rest 100 104\<lparr>world := 115,
            trace := [ApiShutdown, HaIsPaused, PostgresqlStop False, DcsDeleteLeader]\<rparr>)"
    by (simp add: at_rest_def)
  from shutdown_respects_pause [OF a' b']
  have p: "main_finally ?paused (at_rest 100 104)
       = (Inr (), at_rest 100 104\<lparr>world := 105,
            trace := [ApiShutdown, HaIsPaused,
              LogInfo ''Leader key is not deleted and Postgresql is not stopped due paused state'']\<rparr>)"
    by (simp add: at_rest_def)
  from a b c d b' p q show ?thesis by simp
qed

subsection \<open>The bootstrap loop\<close>

lemma is_DCSError_iff: "is_DCSError e \<longleftrightarrow> e = DCSError"
  by (cases e) simp_all

lemma load_attempt_fetch_failed:
  assumes "dcs_get_cluster env (world s) = (Inl e, w1)"
  shows "load_attempt env s = (Inl e, s\<lparr>world := w1, trace := trace s @ [DcsGetCluster]\<rparr>)"
  using assms by (simp add: load_attempt_def action_defs)

lemma load_attempt_returned:
  assumes "fst (load_attempt env s) = Inr u"
  shows "\<exists>c w1. dcs_get_cluster env (world s) = (Inr c, w1)"
proof (cases "dcs_get_cluster env (world s)")
  case (Pair r w1)
  show ?thesis
  proof (cases r)
    case (Inl e)
    with Pair assms show ?thesis by (simp add: load_attempt_fetch_failed)
  next
    case (Inr c)
    with Pair show ?thesis by simp
  qed
qed

lemma set_and_reload_quiet:
  assumes "\<not> p DcsReloadConfig" and "\<not> p (ConfigSetDynamicConfiguration cfg)"
  shows "occurrences p (trace (snd (set_and_reload env cfg s))) = occurrences p (trace s)"
  using assms
  by (simp add: set_and_reload_def action_defs occurrences_def
      split: prod.split sum.split)

lemma seed_from_bootstrap_quiet:
  assumes "\<not> p DcsReloadConfig" and "\<forall>cfg. \<not> p (ConfigSetDynamicConfiguration cfg)"
  shows "occurrences p (trace (snd (seed_from_bootstrap env s))) = occurrences p (trace s)"
  using assms
  by (simp add: seed_from_bootstrap_def set_and_reload_quiet raises_def returns_def
      split: sum.split)

lemma load_attempt_quiet:
  assumes "\<not> p DcsGetCluster" and "\<not> p DcsReloadConfig"
      and "\<forall>cfg. \<not> p (ConfigSetDynamicConfiguration cfg)"
  shows "occurrences p (trace (snd (load_attempt env s))) = occurrences p (trace s)"
proof -
  obtain r w1 where g: "dcs_get_cluster env (world s) = (r, w1)"
    by (cases "dcs_get_cluster env (world s)")
  have base: "occurrences p (trace (s\<lparr>world := w1, trace := trace s @ [DcsGetCluster]\<rparr>))
                = occurrences p (trace s)"
    using assms(1) by (simp add: occurrences_def)
  show ?thesis
  proof (cases r)
    case (Inl e)
    with g base show ?thesis by (simp add: load_attempt_fetch_failed)
  next
    case (Inr c)
    show ?thesis
    proof (cases "truthy_config c")
      case None
      with g Inr have "load_attempt env s
          = seed_from_bootstrap env (s\<lparr>world := w1, trace := trace s @ [DcsGetCluster]\<rparr>)"
        by (simp add: load_attempt_def andthen_def call_def)
      with base assms show ?thesis by (simp add: seed_from_bootstrap_quiet)
    next
      case (Some cfg)
      with g Inr have "load_attempt env s
          = set_and_reload env cfg (s\<lparr>world := w1, trace := trace s @ [DcsGetCluster]\<rparr>)"
        by (simp add: load_attempt_def andthen_def call_def)
      with base assms show ?thesis by (simp add: set_and_reload_quiet)
    qed
  qed
qed

lemma warn_retry_trace:
  "trace (warn_retry s) = trace s @ [LogWarning ''Can not get cluster from dcs'']"
  by (simp add: warn_retry_def log_def)

lemma retry_state_warnings:
  "occurrences is_warning (trace (retry_state env n s)) = occurrences is_warning (trace s) + n"
proof (induction n arbitrary: s)
  case 0
  show ?case by simp
next
  case (Suc n)
  have "occurrences is_warning (trace (warn_retry (snd (load_attempt env s))))
          = occurrences is_warning (trace (snd (load_attempt env s))) + 1"
    by (simp add: warn_retry_trace occurrences_def)
  also have "occurrences is_warning (trace (snd (load_attempt env s)))
          = occurrences is_warning (trace s)"
    by (rule load_attempt_quiet) simp_all
  finally show ?case using Suc.IH [of "warn_retry (snd (load_attempt env s))"] by simp
qed

lemma retry_state_sleeps:
  "occurrences is_sleep (trace (retry_state env n s)) = occurrences is_sleep (trace s)"
proof (induction n arbitrary: s)
  case 0
  show ?case by simp
next
  case (Suc n)
  have "occurrences is_sleep (trace (warn_retry (snd (load_attempt env s))))
          = occurrences is_sleep (trace (snd (load_attempt env s)))"
    by (simp add: warn_retry_trace occurrences_def)
  also have "occurrences is_sleep (trace (snd (load_attempt env s)))
          = occurrences is_sleep (trace s)"
    by (rule load_attempt_quiet) simp_all
  finally show ?case using Suc.IH [of "warn_retry (snd (load_attempt env s))"] by simp
qed

lemma load_retry:
  assumes "fst (load_attempt env s) = Inl DCSError"
  shows "load_dynamic_configuration env s
           = load_dynamic_configuration env (warn_retry (snd (load_attempt env s)))"
proof -
  obtain r s1 where a: "load_attempt env s = (r, s1)"
    by (cases "load_attempt env s")
  with assms have r: "r = Inl DCSError" by simp
  show ?thesis
    by (subst load_dynamic_configuration.simps) (simp add: a r)
qed

lemma load_done:
  assumes "fst (load_attempt env s) \<noteq> Inl DCSError"
  shows "load_dynamic_configuration env s = Some (load_attempt env s)"
proof -
  obtain r s1 where a: "load_attempt env s = (r, s1)"
    by (cases "load_attempt env s")
  with assms have r: "r \<noteq> Inl DCSError" by simp
  show ?thesis
  proof (cases r)
    case (Inl e)
    with r have "\<not> is_DCSError e" by (simp add: is_DCSError_iff)
    with Inl show ?thesis
      by (subst load_dynamic_configuration.simps) (simp add: a)
  next
    case (Inr u)
    then show ?thesis
      by (subst load_dynamic_configuration.simps) (simp add: a)
  qed
qed

lemma load_after_failures:
  assumes "\<forall>i<n. fst (load_attempt env (retry_state env i s)) = Inl DCSError"
  shows "load_dynamic_configuration env s = load_dynamic_configuration env (retry_state env n s)"
  using assms
proof (induction n arbitrary: s)
  case 0
  then show ?case by simp
next
  case (Suc n)
  from Suc.prems have "fst (load_attempt env (retry_state env 0 s)) = Inl DCSError"
    by blast
  then have first: "fst (load_attempt env s) = Inl DCSError"
    by simp
  have later: "\<forall>i<n. fst (load_attempt env
        (retry_state env i (warn_retry (snd (load_attempt env s))))) = Inl DCSError"
  proof (intro allI impI)
    fix i assume "i < n"
    then have "Suc i < Suc n" by simp
    with Suc.prems have "fst (load_attempt env (retry_state env (Suc i) s)) = Inl DCSError"
      by blast
    then show "fst (load_attempt env
        (retry_state env i (warn_retry (snd (load_attempt env s))))) = Inl DCSError"
      by simp
  qed
  from Suc.IH [OF later] load_retry [OF first] show ?case by simp
qed

lemma load_result_shape:
  assumes "load_dynamic_configuration env s = Some res"
  shows "\<exists>n. (\<forall>i<n. fst (load_attempt env (retry_state env i s)) = Inl DCSError)
           \<and> res = load_attempt env (retry_state env n s)
           \<and> fst res \<noteq> Inl DCSError"
  using assms
proof (induction env s res
    rule: load_dynamic_configuration.raw_induct [rotated 1, consumes 1, case_names step])
  case (step load env s res)
  obtain r s1 where a: "load_attempt env s = (r, s1)"
    by (cases "load_attempt env s")
  show ?case
  proof (cases "r = Inl DCSError")
    case False
    have "res = (r, s1)"
    proof (cases r)
      case (Inl e)
      with False have "\<not> is_DCSError e" by (simp add: is_DCSError_iff)
      with step(2) Inl show ?thesis by (simp add: a)
    next
      case (Inr u)
      with step(2) show ?thesis by (simp add: a)
    qed
    with False a have "(\<forall>i<0. fst (load_attempt env (retry_state env i s)) = Inl DCSError)
           \<and> res = load_attempt env (retry_state env 0 s) \<and> fst res \<noteq> Inl DCSError"
      by simp
    then show ?thesis by (rule exI)
  next
    case True
    with step(2) have "load env (warn_retry s1) = Some res"
      by (simp add: a)
    from step(1) [OF this] obtain n where
      n: "(\<forall>i<n. fst (load_attempt env (retry_state env i (warn_retry s1))) = Inl DCSError)
          \<and> res = load_attempt env (retry_state env n (warn_retry s1))
          \<and> fst res \<noteq> Inl DCSError" ..
    from n have n1: "\<forall>i<n. fst (load_attempt env (retry_state env i (warn_retry s1))) = Inl DCSError"
      by (rule conjunct1)
    from n have n2: "res = load_attempt env (retry_state env n (warn_retry s1))"
      by (elim conjE)
    from n have n3: "fst res \<noteq> Inl DCSError"
      by (elim conjE)
    have "\<forall>i<Suc n. fst (load_attempt env (retry_state env i s)) = Inl DCSError"
    proof (intro allI impI)
      fix i assume i: "i < Suc n"
      show "fst (load_attempt env (retry_state env i s)) = Inl DCSError"
      proof (cases i)
        case 0
        with True a show ?thesis by simp
      next
        case (Suc j)
        with i have "j < n" by simp
        with n1 have "fst (load_attempt env (retry_state env j (warn_retry s1))) = Inl DCSError"
          by blast
        with Suc a show ?thesis by simp
      qed
    qed
    moreover have "res = load_attempt env (retry_state env (Suc n) s)"
      using n2 a by simp
    ultimately have "(\<forall>i<Suc n. fst (load_attempt env (retry_state env i s)) = Inl DCSError)
           \<and> res = load_attempt env (retry_state env (Suc n) s) \<and> fst res \<noteq> Inl DCSError"
      using n3 by simp
    then show ?thesis by (rule exI)
  qed
qed


lemma load_attempt_always_fails:
  assumes "\<forall>w. fst (dcs_get_cluster env w) = Inl DCSError"
  shows "fst (load_attempt env s) = Inl DCSError"
proof -
  obtain r w1 where g: "dcs_get_cluster env (world s) = (r, w1)"
    by (cases "dcs_get_cluster env (world s)")
  from assms have "fst (dcs_get_cluster env (world s)) = Inl DCSError" ..
  with g have "r = Inl DCSError" by simp
  with g show ?thesis by (simp add: load_attempt_fetch_failed)
qed

lemma load_never_returns:
  assumes "\<forall>w. fst (dcs_get_cluster env w) = Inl DCSError"
  shows "load_dynamic_configuration env s = None"
proof (cases "load_dynamic_configuration env s")
  case None
  then show ?thesis .
next
  case (Some res)
  from load_result_shape [OF Some] obtain n where
    n: "(\<forall>i<n. fst (load_attempt env (retry_state env i s)) = Inl DCSError)
        \<and> res = load_attempt env (retry_state env n s)
        \<and> fst res \<noteq> Inl DCSError" ..
  from n have "fst (load_attempt env (retry_state env n s)) \<noteq> Inl DCSError" by auto
  with load_attempt_always_fails [OF assms] show ?thesis by simp
qed

lemma load_fetch_failed:
  assumes "dcs_get_cluster env (world s) = (Inl DCSError, w1)"
  shows "load_dynamic_configuration env s
           = load_dynamic_configuration env
               (s\<lparr>world := w1,
                  trace := trace s @ [DcsGetCluster, LogWarning ''Can not get cluster from dcs'']\<rparr>)"
proof -
  have a: "load_attempt env s = (Inl DCSError, s\<lparr>world := w1, trace := trace s @ [DcsGetCluster]\<rparr>)"
    using assms by (rule load_attempt_fetch_failed)
  then have "fst (load_attempt env s) = Inl DCSError" by simp
  from load_retry [OF this] show ?thesis
    by (simp add: a warn_retry_def log_def)
qed

lemma load_returned:
  assumes "load_dynamic_configuration env s = Some (Inr u, s')"
  shows "\<exists>n c w1.
           (\<forall>i<n. fst (load_attempt env (retry_state env i s)) = Inl DCSError)
           \<and> dcs_get_cluster env (world (retry_state env n s)) = (Inr c, w1)
           \<and> load_attempt env (retry_state env n s) = (Inr u, s')
           \<and> occurrences is_warning (trace s') = occurrences is_warning (trace s) + n
           \<and> occurrences is_sleep (trace s') = occurrences is_sleep (trace s)"
proof -
  from load_result_shape [OF assms] obtain n where
    n: "(\<forall>i<n. fst (load_attempt env (retry_state env i s)) = Inl DCSError)
        \<and> (Inr u, s') = load_attempt env (retry_state env n s)
        \<and> fst (Inr u :: exn + unit, s') \<noteq> Inl DCSError" ..
  from n have fails: "\<forall>i<n. fst (load_attempt env (retry_state env i s)) = Inl DCSError"
    by (rule conjunct1)
  from n have last: "load_attempt env (retry_state env n s) = (Inr u, s')"
    by simp
  then have "fst (load_attempt env (retry_state env n s)) = Inr u" by simp
  from load_attempt_returned [OF this] obtain c w1 where
    fetched: "dcs_get_cluster env (world (retry_state env n s)) = (Inr c, w1)" by blast
  have "occurrences is_warning (trace (snd (load_attempt env (retry_state env n s))))
          = occurrences is_warning (trace (retry_state env n s))"
    by (rule load_attempt_quiet) simp_all
  with last have warnings: "occurrences is_warning (trace s') = occurrences is_warning (trace s) + n"
    by (simp add: retry_state_warnings)
  have "occurrences is_sleep (trace (snd (load_attempt env (retry_state env n s))))
          = occurrences is_sleep (trace (retry_state env n s))"
    by (rule load_attempt_quiet) simp_all
  with last have sleeps: "occurrences is_sleep (trace s') = occurrences is_sleep (trace s)"
    by (simp add: retry_state_sleeps)
  from fails fetched last warnings sleeps show ?thesis by blast
qed

lemma load_returns_after:
  assumes "\<forall>i<n. fst (load_attempt env (retry_state env i s)) = Inl DCSError"
      and "fst (load_attempt env (retry_state env n s)) = Inr u"
  shows "load_dynamic_configuration env s = Some (load_attempt env (retry_state env n s))"
proof -
  from assms(2) have "fst (load_attempt env (retry_state env n s)) \<noteq> Inl DCSError" by simp
  from load_done [OF this] load_after_failures [OF assms(1)] show ?thesis by simp
qed

text \<open>
  C5. \<open>load_dynamic_configuration\<close> and the fetch of the cluster.
  \<^item> If the function returns normally, then some number \<open>n\<close> of attempts raised
    \<open>DCSError\<close>, in the attempt after them \<open>get_cluster\<close> returned, and the trace
    has gained \<open>n\<close> warnings and no sleep.
  \<^item> A fetch that raises \<open>DCSError\<close> is followed by one warning and then by the
    next attempt, with nothing in between.
  \<^item> For every \<open>k\<close>: if the first \<open>k\<close> attempts raise \<open>DCSError\<close> and the
    next one returns, the function returns with the result of that attempt.
  \<^item> If \<open>get_cluster\<close> raises \<open>DCSError\<close> whenever it is called, the function
    never returns.
  An exception of another class is not caught and leaves the function as an exception,
  not as a return.
\<close>

theorem load_dynamic_configuration_retries_until_fetched:
  "(load_dynamic_configuration env s = Some (Inr u, s') \<longrightarrow>
      (\<exists>n c w1.
           (\<forall>i<n. fst (load_attempt env (retry_state env i s)) = Inl DCSError)
           \<and> dcs_get_cluster env (world (retry_state env n s)) = (Inr c, w1)
           \<and> load_attempt env (retry_state env n s) = (Inr u, s')
           \<and> occurrences is_warning (trace s') = occurrences is_warning (trace s) + n
           \<and> occurrences is_sleep (trace s') = occurrences is_sleep (trace s)))
   \<and> (dcs_get_cluster env (world s) = (Inl DCSError, w1) \<longrightarrow>
        load_dynamic_configuration env s
          = load_dynamic_configuration env
              (s\<lparr>world := w1,
                 trace := trace s @ [DcsGetCluster, LogWarning ''Can not get cluster from dcs'']\<rparr>))
   \<and> ((\<forall>i<k. fst (load_attempt env (retry_state env i s)) = Inl DCSError)
        \<and> fst (load_attempt env (retry_state env k s)) = Inr u \<longrightarrow>
        load_dynamic_configuration env s = Some (load_attempt env (retry_state env k s)))
   \<and> ((\<forall>w. fst (dcs_get_cluster env w) = Inl DCSError) \<longrightarrow>
        load_dynamic_configuration env s = None)"
  using load_returned [of env s u s'] load_fetch_failed [of env s w1]
    load_returns_after [of k env s u] load_never_returns [of env s]
  by blast

lemma flaky_simps:
  "dcs_get_cluster flaky = (\<lambda>w. if w < 2 then (Inl DCSError, Suc w) else (Inr None, w))"
  "config_dynamic_configuration flaky = (\<lambda>w. PDict [])"
  "config_contains_bootstrap flaky = (\<lambda>w. False)"
  by (simp_all add: flaky_def calm_def)

lemma flaky_attempts:
  "load_attempt flaky (at_rest 0 0)
     = (Inl DCSError, at_rest 0 0\<lparr>world := Suc 0, trace := [DcsGetCluster]\<rparr>)"
  "retry_state flaky (Suc 0) (at_rest 0 0)
     = at_rest 0 0\<lparr>world := Suc 0, trace := [DcsGetCluster, LogWarning ''Can not get cluster from dcs'']\<rparr>"
  "load_attempt flaky
       (at_rest 0 0\<lparr>world := Suc 0, trace := [DcsGetCluster, LogWarning ''Can not get cluster from dcs'']\<rparr>)
     = (Inl DCSError, at_rest 0 0\<lparr>world := Suc (Suc 0),
          trace := [DcsGetCluster, LogWarning ''Can not get cluster from dcs'', DcsGetCluster]\<rparr>)"
  "retry_state flaky (Suc (Suc 0)) (at_rest 0 0)
     = at_rest 0 0\<lparr>world := Suc (Suc 0),
          trace := [DcsGetCluster, LogWarning ''Can not get cluster from dcs'',
                    DcsGetCluster, LogWarning ''Can not get cluster from dcs'']\<rparr>"
  "load_attempt flaky
       (at_rest 0 0\<lparr>world := Suc (Suc 0),
          trace := [DcsGetCluster, LogWarning ''Can not get cluster from dcs'',
                    DcsGetCluster, LogWarning ''Can not get cluster from dcs'']\<rparr>)
     = (Inr (), at_rest 0 0\<lparr>world := Suc (Suc 0),
          trace := [DcsGetCluster, LogWarning ''Can not get cluster from dcs'',
                    DcsGetCluster, LogWarning ''Can not get cluster from dcs'', DcsGetCluster]\<rparr>)"
  by (simp_all add: load_attempt_def seed_from_bootstrap_def truthy_config_def warn_retry_def
      action_defs flaky_simps at_rest_def)

theorem load_dynamic_configuration_retries_until_fetched_witness:
  "fst (load_attempt flaky (retry_state flaky 0 (at_rest 0 0))) = Inl DCSError
   \<and> fst (load_attempt flaky (retry_state flaky 1 (at_rest 0 0))) = Inl DCSError
   \<and> fst (load_attempt flaky (retry_state flaky 2 (at_rest 0 0))) = Inr ()
   \<and> load_dynamic_configuration flaky (at_rest 0 0)
       = Some (Inr (), at_rest 0 0\<lparr>world := Suc (Suc 0),
          trace := [DcsGetCluster, LogWarning ''Can not get cluster from dcs'',
                    DcsGetCluster, LogWarning ''Can not get cluster from dcs'', DcsGetCluster]\<rparr>)"
proof -
  have a: "\<forall>i<2. fst (load_attempt flaky (retry_state flaky i (at_rest 0 0))) = Inl DCSError"
    by (simp del: retry_state.simps(2) add: numeral_2_eq_2 less_Suc_eq flaky_attempts)
  have b: "fst (load_attempt flaky (retry_state flaky 2 (at_rest 0 0))) = Inr ()"
    by (simp del: retry_state.simps(2) add: numeral_2_eq_2 flaky_attempts)
  from a b load_dynamic_configuration_retries_until_fetched
      [where env = flaky and s = "at_rest 0 0" and k = 2 and u = "()"]
  have "load_dynamic_configuration flaky (at_rest 0 0)
          = Some (load_attempt flaky (retry_state flaky 2 (at_rest 0 0)))"
    by blast
  with a b show ?thesis
    by (simp del: retry_state.simps(2) add: numeral_2_eq_2 flaky_attempts)
qed

lemma load_attempt_seed:
  assumes "dcs_get_cluster env (world s) = (Inr c, w1)"
      and "truthy_config c = None"
      and "\<not> truthy (config_dynamic_configuration env w1)"
      and "config_contains_bootstrap env w1"
      and "config_bootstrap_dcs env w1 = Inr cfg"
      and "config_set_dynamic_configuration env cfg w1 = (Inr changed, w2)"
      and "dcs_reload_config env w2 = (r, w3)"
  shows "load_attempt env s =
           (if changed
            then (r, s\<lparr>world := w3, trace := trace s @
                    [DcsGetCluster, ConfigSetDynamicConfiguration cfg, DcsReloadConfig]\<rparr>)
            else (Inr (), s\<lparr>world := w2, trace := trace s @
                    [DcsGetCluster, ConfigSetDynamicConfiguration cfg]\<rparr>))"
  using assms
  by (simp add: load_attempt_def seed_from_bootstrap_def set_and_reload_def action_defs)

text \<open>
  The push is guarded by the result of \<open>set_dynamic_configuration\<close>. With a bootstrap
  section whose \<open>dcs\<close> entry is the empty mapping, no cluster in the DCS and an empty
  dynamic configuration, \<open>set_dynamic_configuration\<close> reports no change, and the
  function returns without calling \<open>dcs.reload_config\<close>.
\<close>

theorem bootstrap_seed_counterexample:
  "dcs_get_cluster (seeding (PDict [])) (world (at_rest 0 0)) = (Inr None, 0)
   \<and> truthy_config None = None
   \<and> \<not> truthy (config_dynamic_configuration (seeding (PDict [])) 0)
   \<and> config_contains_bootstrap (seeding (PDict [])) 0
   \<and> config_bootstrap_dcs (seeding (PDict [])) 0 = Inr (PDict [])
   \<and> load_dynamic_configuration (seeding (PDict [])) (at_rest 0 0)
       = Some (Inr (), at_rest 0 0
           \<lparr>trace := [DcsGetCluster, ConfigSetDynamicConfiguration (PDict [])]\<rparr>)
   \<and> DcsReloadConfig \<notin> set [DcsGetCluster, ConfigSetDynamicConfiguration (PDict [])]"
proof -
  have a: "load_attempt (seeding (PDict [])) (at_rest 0 0)
             = (Inr (), at_rest 0 0
                 \<lparr>trace := [DcsGetCluster, ConfigSetDynamicConfiguration (PDict [])]\<rparr>)"
    by (simp add: load_attempt_def seed_from_bootstrap_def set_and_reload_def action_defs
        truthy_config_def seeding_def calm_def at_rest_def)
  then have "fst (load_attempt (seeding (PDict [])) (at_rest 0 0)) \<noteq> Inl DCSError"
    by simp
  from load_done [OF this] a show ?thesis
    by (simp add: truthy_config_def seeding_def calm_def at_rest_def)
qed

text \<open>
  C7, amended. If the fetched cluster carries no configuration, the dynamic configuration
  held locally is empty, and the local configuration has a bootstrap section with a
  \<open>dcs\<close> entry, then \<open>load_dynamic_configuration\<close> passes that entry to
  \<open>set_dynamic_configuration\<close> and calls \<open>dcs.reload_config\<close> exactly when
  \<open>set_dynamic_configuration\<close> reports a change; when it reports none, nothing is
  pushed. (The call of \<open>dcs.reload_config\<close> is taken to return.)
\<close>

theorem bootstrap_seeds_when_changed:
  assumes "dcs_get_cluster env (world s) = (Inr c, w1)"
      and "truthy_config c = None"
      and "\<not> truthy (config_dynamic_configuration env w1)"
      and "config_contains_bootstrap env w1"
      and "config_bootstrap_dcs env w1 = Inr cfg"
      and "config_set_dynamic_configuration env cfg w1 = (Inr changed, w2)"
      and "dcs_reload_config env w2 = (Inr (), w3)"
  shows "load_dynamic_configuration env s =
           Some (Inr (),
             if changed
             then s\<lparr>world := w3, trace := trace s @
                    [DcsGetCluster, ConfigSetDynamicConfiguration cfg, DcsReloadConfig]\<rparr>
             else s\<lparr>world := w2, trace := trace s @
                    [DcsGetCluster, ConfigSetDynamicConfiguration cfg]\<rparr>)"
proof -
  from load_attempt_seed [OF assms]
  have a: "load_attempt env s =
           (Inr (),
             if changed
             then s\<lparr>world := w3, trace := trace s @
                    [DcsGetCluster, ConfigSetDynamicConfiguration cfg, DcsReloadConfig]\<rparr>
             else s\<lparr>world := w2, trace := trace s @
                    [DcsGetCluster, ConfigSetDynamicConfiguration cfg]\<rparr>)"
    by simp
  then have "fst (load_attempt env s) \<noteq> Inl DCSError" by simp
  from load_done [OF this] a show ?thesis by simp
qed

theorem bootstrap_seeds_when_changed_witness:
  "dcs_get_cluster (seeding (PDict [(''ttl'', PInt 30)])) (world (at_rest 0 0)) = (Inr None, 0)
   \<and> truthy_config None = None
   \<and> \<not> truthy (config_dynamic_configuration (seeding (PDict [(''ttl'', PInt 30)])) 0)
   \<and> config_contains_bootstrap (seeding (PDict [(''ttl'', PInt 30)])) 0
   \<and> config_bootstrap_dcs (seeding (PDict [(''ttl'', PInt 30)])) 0 = Inr (PDict [(''ttl'', PInt 30)])
   \<and> config_set_dynamic_configuration (seeding (PDict [(''ttl'', PInt 30)]))
        (PDict [(''ttl'', PInt 30)]) 0 = (Inr True, 0)
   \<and> dcs_reload_config (seeding (PDict [(''ttl'', PInt 30)])) 0 = (Inr (), 0)
   \<and> load_dynamic_configuration (seeding (PDict [(''ttl'', PInt 30)])) (at_rest 0 0)
       = Some (Inr (), at_rest 0 0
           \<lparr>trace := [DcsGetCluster, ConfigSetDynamicConfiguration (PDict [(''ttl'', PInt 30)]),
                       DcsReloadConfig]\<rparr>)"
proof -
  let ?env = "seeding (PDict [(''ttl'', PInt 30)])"
  have a: "dcs_get_cluster ?env (world (at_rest 0 0)) = (Inr None, 0)"
    by (simp add: seeding_def calm_def at_rest_def)
  have b: "truthy_config None = None"
    by (simp add: truthy_config_def)
  have c: "\<not> truthy (config_dynamic_configuration ?env 0)"
    by (simp add: seeding_def calm_def)
  have d: "config_contains_bootstrap ?env 0"
    by (simp add: seeding_def)
  have e: "config_bootstrap_dcs ?env 0 = Inr (PDict [(''ttl'', PInt 30)])"
    by (simp add: seeding_def)
  have f: "config_set_dynamic_configuration ?env (PDict [(''ttl'', PInt 30)]) 0 = (Inr True, 0)"
    by (simp add: seeding_def calm_def)
  have g: "dcs_reload_config ?env 0 = (Inr (), 0)"
    by (simp add: seeding_def calm_def)
  from bootstrap_seeds_when_changed [OF a b c d e f g] a b c d e f g
  show ?thesis by (simp add: at_rest_def)
qed

subsection \<open>The main cycle and its failures\<close>

lemma unchanged_sigtermI:
  assumes "\<And>s. \<exists>x s'. act s = (Inr x, s') \<and> received_sigterm s' = received_sigterm s"
  shows "unchanged_sigterm act"
  using assms by (simp add: unchanged_sigterm_def)

lemma unchanged_sigtermD:
  assumes "unchanged_sigterm act"
  obtains x s' where "act s = (Inr x, s')" and "received_sigterm s' = received_sigterm s"
  using assms unfolding unchanged_sigterm_def by blast

lemma unchanged_returns: "unchanged_sigterm (returns x)"
  by (simp add: unchanged_sigterm_def returns_def)

lemma unchanged_log: "unchanged_sigterm (log ev)"
  by (simp add: unchanged_sigterm_def log_def)

lemma unchanged_sleep: "unchanged_sigterm (sleep env d)"
  by (simp add: unchanged_sigterm_def sleep_def)

lemma unchanged_current_time: "unchanged_sigterm (current_time env)"
  by (simp add: unchanged_sigterm_def current_time_def split: prod.split)

lemma unchanged_assign_next_run: "unchanged_sigterm (assign_next_run t)"
  by (simp add: unchanged_sigterm_def assign_next_run_def)

lemma unchanged_advance_next_run: "unchanged_sigterm (advance_next_run env)"
  by (simp add: unchanged_sigterm_def advance_next_run_def)

lemma unchanged_andthen:
  assumes "unchanged_sigterm m" and "\<And>x. unchanged_sigterm (f x)"
  shows "unchanged_sigterm (andthen m f)"
proof (rule unchanged_sigtermI)
  fix s
  from assms(1) obtain x s1 where m: "m s = (Inr x, s1)"
    and k1: "received_sigterm s1 = received_sigterm s"
    by (rule unchanged_sigtermD)
  from assms(2) obtain y s2 where f: "f x s1 = (Inr y, s2)"
    and k2: "received_sigterm s2 = received_sigterm s1"
    by (rule unchanged_sigtermD)
  from m f k1 k2 show "\<exists>x s'. andthen m f s = (Inr x, s') \<and> received_sigterm s' = received_sigterm s"
    by (simp add: andthen_def)
qed

lemma unchanged_call:
  fixes f :: "'w \<Rightarrow> (exn + 'a) \<times> 'w"
  assumes "never_raises f"
  shows "unchanged_sigterm (call ev f)"
proof (rule unchanged_sigtermI)
  fix s :: "'w patroni"
  from assms obtain x where "fst (f (world s)) = Inr x"
    unfolding never_raises_def by blast
  then show "\<exists>x s'. call ev f s = (Inr x, s') \<and> received_sigterm s' = received_sigterm s"
    by (cases "f (world s)") (simp add: call_def)
qed

lemma fails_ordinarily_call:
  fixes f :: "'w \<Rightarrow> (exn + 'a) \<times> 'w"
  assumes "raises_only_exceptions f"
  shows "fails_ordinarily (call ev f)"
  unfolding fails_ordinarily_def
proof (intro allI conjI impI)
  fix s :: "'w patroni"
  show "received_sigterm (snd (call ev f s)) = received_sigterm s"
    by (cases "f (world s)") (simp add: call_def)
next
  fix s :: "'w patroni" and e
  assume "fst (call ev f s) = Inl e"
  then have "fst (f (world s)) = Inl e"
    by (cases "f (world s)") (simp add: call_def)
  with assms show "is_Exception e"
    unfolding raises_only_exceptions_def by blast
qed

lemma fails_ordinarily_assign_tags: "fails_ordinarily (assign_tags env)"
  by (simp add: fails_ordinarily_def assign_tags_def)

lemma fails_ordinarily_andthen:
  assumes "fails_ordinarily m" and "\<And>x. fails_ordinarily (f x)"
  shows "fails_ordinarily (andthen m f)"
  unfolding fails_ordinarily_def
proof (intro allI conjI impI)
  fix s
  obtain r s1 where m: "m s = (r, s1)" by (cases "m s")
  from assms(1) m have k1: "received_sigterm s1 = received_sigterm s"
    unfolding fails_ordinarily_def by (metis snd_conv)
  show "received_sigterm (snd (andthen m f s)) = received_sigterm s"
  proof (cases r)
    case (Inl e)
    with m k1 show ?thesis by (simp add: andthen_def)
  next
    case (Inr x)
    from assms(2) [of x] have "received_sigterm (snd (f x s1)) = received_sigterm s1"
      unfolding fails_ordinarily_def by blast
    with Inr m k1 show ?thesis by (simp add: andthen_def)
  qed
next
  fix s e
  assume raised: "fst (andthen m f s) = Inl e"
  obtain r s1 where m: "m s = (r, s1)" by (cases "m s")
  show "is_Exception e"
  proof (cases r)
    case (Inl e')
    with m raised have "e' = e" by (simp add: andthen_def)
    with Inl m have "fst (m s) = Inl e" by simp
    with assms(1) show ?thesis unfolding fails_ordinarily_def by blast
  next
    case (Inr x)
    with m raised have "fst (f x s1) = Inl e" by (simp add: andthen_def)
    with assms(2) [of x] show ?thesis unfolding fails_ordinarily_def by blast
  qed
qed

lemma fails_ordinarily_reload_steps:
  assumes "reload_failures_ordinary env"
  shows "fails_ordinarily (reload_steps env)"
  using assms unfolding reload_steps_def reload_failures_ordinary_def
  by (intro fails_ordinarily_andthen fails_ordinarily_assign_tags fails_ordinarily_call) simp_all

lemma reload_config_caught:
  assumes "reload_steps env s = (Inl e, s1)" and "is_Exception e"
  shows "reload_config env s =
           (Inr (), s1\<lparr>trace := trace s1 @ [LogException ''Failed to reload config_file=%s'']\<rparr>)"
  using assms by (simp add: reload_config_def try_except_def log_def)

lemma reload_config_passed:
  assumes "reload_steps env s = (Inr u, s1)"
  shows "reload_config env s = (Inr (), s1)"
  using assms by (simp add: reload_config_def try_except_def)

lemma unchanged_reload_config:
  assumes "reload_failures_ordinary env"
  shows "unchanged_sigterm (reload_config env)"
proof (rule unchanged_sigtermI)
  fix s
  obtain r s1 where st: "reload_steps env s = (r, s1)" by (cases "reload_steps env s")
  from fails_ordinarily_reload_steps [OF assms]
  have k: "received_sigterm (snd (reload_steps env s)) = received_sigterm s"
    and ex: "\<forall>e. fst (reload_steps env s) = Inl e \<longrightarrow> is_Exception e"
    unfolding fails_ordinarily_def by blast+
  show "\<exists>x s'. reload_config env s = (Inr x, s') \<and> received_sigterm s' = received_sigterm s"
  proof (cases r)
    case (Inl e)
    with st ex have "is_Exception e" by simp
    with Inl st k show ?thesis by (simp add: reload_config_caught)
  next
    case (Inr u)
    with st k show ?thesis by (simp add: reload_config_passed)
  qed
qed

lemma unchanged_save_cache: "unchanged_sigterm (save_cache env)"
  by (simp add: unchanged_sigterm_def save_cache_def log_def Let_def split: prod.split)

lemma unchanged_schedule_next_run:
  assumes "\<forall>d. never_raises (dcs_watch env d)"
  shows "unchanged_sigterm (schedule_next_run env)"
  unfolding schedule_next_run_def
proof (intro unchanged_andthen unchanged_advance_next_run unchanged_current_time)
  fix u :: unit and now :: real
  show "unchanged_sigterm (\<lambda>s. let nap_time = next_run s - now in
          if nap_time \<le> 0
          then andthen (assign_next_run now) (\<lambda>_.
               andthen (sleep env (1 / 1000)) (\<lambda>_.
               log (LogWarning ''Loop time exceeded, rescheduling immediately.''))) s
          else andthen (call (DcsWatch nap_time) (dcs_watch env nap_time)) (\<lambda>changed.
                 if changed then andthen (current_time env) assign_next_run
                 else returns ()) s)"
  proof (rule unchanged_sigtermI)
    fix s :: "'a patroni"
    have late: "unchanged_sigterm (andthen (assign_next_run now) (\<lambda>_.
               andthen (sleep env (1 / 1000)) (\<lambda>_.
               log (LogWarning ''Loop time exceeded, rescheduling immediately.''))))"
      by (intro unchanged_andthen unchanged_assign_next_run unchanged_sleep unchanged_log)
    have wait: "unchanged_sigterm (andthen
                 (call (DcsWatch (next_run s - now)) (dcs_watch env (next_run s - now)))
                 (\<lambda>changed. if changed then andthen (current_time env) assign_next_run
                             else returns ()))"
      using assms
      by (intro unchanged_andthen unchanged_call)
         (simp_all add: unchanged_andthen unchanged_current_time unchanged_assign_next_run
            unchanged_returns)
    show "\<exists>x s'. (let nap_time = next_run s - now in
          if nap_time \<le> 0
          then andthen (assign_next_run now) (\<lambda>_.
               andthen (sleep env (1 / 1000)) (\<lambda>_.
               log (LogWarning ''Loop time exceeded, rescheduling immediately.''))) s
          else andthen (call (DcsWatch nap_time) (dcs_watch env nap_time)) (\<lambda>changed.
                 if changed then andthen (current_time env) assign_next_run
                 else returns ()) s) = (Inr x, s') \<and> received_sigterm s' = received_sigterm s"
    proof (cases "next_run s - now \<le> 0")
      case True
      from late obtain x s' where "andthen (assign_next_run now) (\<lambda>_.
               andthen (sleep env (1 / 1000)) (\<lambda>_.
               log (LogWarning ''Loop time exceeded, rescheduling immediately.''))) s = (Inr x, s')"
        and "received_sigterm s' = received_sigterm s"
        by (rule unchanged_sigtermD)
      with True show ?thesis by (simp add: Let_def)
    next
      case False
      from wait obtain x s' where "andthen
                 (call (DcsWatch (next_run s - now)) (dcs_watch env (next_run s - now)))
                 (\<lambda>changed. if changed then andthen (current_time env) assign_next_run
                             else returns ()) s = (Inr x, s')"
        and "received_sigterm s' = received_sigterm s"
        by (rule unchanged_sigtermD)
      with False show ?thesis by (simp add: Let_def)
    qed
  qed
qed

lemma unchanged_tick_sighup:
  assumes "steady env" and "reload_failures_ordinary env"
  shows "unchanged_sigterm (tick_sighup env)"
proof (rule unchanged_sigtermI)
  fix s :: "'a patroni"
  have body: "unchanged_sigterm
      (andthen (call ConfigReloadLocalConfiguration (config_reload_local_configuration env))
         (\<lambda>changed. if changed then reload_config env else returns ()))"
    using assms
    by (intro unchanged_andthen unchanged_call)
       (simp_all add: steady_def unchanged_reload_config unchanged_returns)
  show "\<exists>x s'. tick_sighup env s = (Inr x, s') \<and> received_sigterm s' = received_sigterm s"
  proof (cases "received_sighup s")
    case True
    from body obtain x s' where
      "andthen (call ConfigReloadLocalConfiguration (config_reload_local_configuration env))
         (\<lambda>changed. if changed then reload_config env else returns ())
         (s\<lparr>received_sighup := False\<rparr>) = (Inr x, s')"
      and "received_sigterm s' = received_sigterm (s\<lparr>received_sighup := False\<rparr>)"
      by (rule unchanged_sigtermD)
    with True show ?thesis by (simp add: tick_sighup_def)
  next
    case False
    then show ?thesis by (simp add: tick_sighup_def returns_def)
  qed
qed

lemma unchanged_tick_ha:
  assumes "steady env"
  shows "unchanged_sigterm (tick_ha env)"
  using assms unfolding tick_ha_def
  by (intro unchanged_andthen unchanged_call unchanged_log) (simp add: steady_def)

lemma unchanged_tick_cluster:
  assumes "steady env" and "reload_failures_ordinary env"
  shows "unchanged_sigterm (tick_cluster env)"
proof (rule unchanged_sigtermI)
  fix s :: "'a patroni"
  show "\<exists>x s'. tick_cluster env s = (Inr x, s') \<and> received_sigterm s' = received_sigterm s"
  proof (cases "truthy_config (dcs_cluster env (world s))")
    case None
    then show ?thesis by (simp add: tick_cluster_def returns_def)
  next
    case (Some cfg)
    have "unchanged_sigterm
      (andthen (call (ConfigSetDynamicConfiguration cfg) (config_set_dynamic_configuration env cfg))
         (\<lambda>changed. if changed then reload_config env else returns ()))"
      using assms
      by (intro unchanged_andthen unchanged_call)
         (simp_all add: steady_def unchanged_reload_config unchanged_returns)
    then obtain x s' where
      "andthen (call (ConfigSetDynamicConfiguration cfg) (config_set_dynamic_configuration env cfg))
         (\<lambda>changed. if changed then reload_config env else returns ()) s = (Inr x, s')"
      and "received_sigterm s' = received_sigterm s"
      by (rule unchanged_sigtermD)
    with Some show ?thesis by (simp add: tick_cluster_def)
  qed
qed

lemma unchanged_tick_cache:
  assumes "steady env"
  shows "unchanged_sigterm (tick_cache env)"
  using assms unfolding tick_cache_def
  by (intro unchanged_andthen unchanged_call)
     (simp_all add: steady_def unchanged_save_cache unchanged_returns)

lemma unchanged_tick_rest:
  assumes "steady env"
  shows "unchanged_sigterm (tick_rest env)"
  using assms unfolding tick_rest_def
  by (intro unchanged_andthen unchanged_call unchanged_schedule_next_run)
     (simp_all add: steady_def)

lemma unchanged_run_tick:
  assumes "steady env" and "reload_failures_ordinary env"
  shows "unchanged_sigterm (run_tick env)"
  unfolding run_tick_def tick_from_ha_def tick_from_cluster_def tick_from_cache_def
  using assms
  by (intro unchanged_andthen unchanged_tick_sighup unchanged_tick_ha unchanged_tick_cluster
        unchanged_tick_cache unchanged_tick_rest)

lemma run_loop_next:
  assumes "\<not> received_sigterm s" and "run_tick env s = (Inr u, s')"
  shows "run_loop env s = run_loop env s'"
  using assms by (subst run_loop.simps) simp

lemma run_tick_survives:
  assumes "steady env" and "reload_failures_ordinary env"
  shows "\<exists>s'. run_tick env s = (Inr (), s') \<and> received_sigterm s' = received_sigterm s
              \<and> (\<not> received_sigterm s \<longrightarrow> run_loop env s = run_loop env s')"
proof -
  from unchanged_run_tick [OF assms] obtain x s' where
    t: "run_tick env s = (Inr x, s')" and k: "received_sigterm s' = received_sigterm s"
    by (rule unchanged_sigtermD)
  from t have "\<not> received_sigterm s \<longrightarrow> run_loop env s = run_loop env s'"
    by (simp add: run_loop_next)
  with t k show ?thesis by simp
qed

lemma tick_sighup_reload_failed:
  assumes "received_sighup s"
      and "config_reload_local_configuration env (world s) = (Inr True, w1)"
      and "reload_steps env (s\<lparr>received_sighup := False, world := w1,
              trace := trace s @ [ConfigReloadLocalConfiguration]\<rparr>) = (Inl e, s1)"
      and "is_Exception e"
  shows "tick_sighup env s =
           (Inr (), s1\<lparr>trace := trace s1 @ [LogException ''Failed to reload config_file=%s'']\<rparr>)"
  using assms by (simp add: tick_sighup_def andthen_def call_def reload_config_caught)

lemma tick_cluster_reload_failed:
  assumes "truthy_config (dcs_cluster env (world s)) = Some cfg"
      and "config_set_dynamic_configuration env cfg (world s) = (Inr True, w1)"
      and "reload_steps env (s\<lparr>world := w1,
              trace := trace s @ [ConfigSetDynamicConfiguration cfg]\<rparr>) = (Inl e, s1)"
      and "is_Exception e"
  shows "tick_cluster env s =
           (Inr (), s1\<lparr>trace := trace s1 @ [LogException ''Failed to reload config_file=%s'']\<rparr>)"
  using assms by (simp add: tick_cluster_def andthen_def call_def reload_config_caught)

text \<open>
  C6. A failure of the reload is caught and logged, and the tick and the loop go on.
  \<^item> If a step of \<open>reload_config\<close> raises a subclass of \<open>Exception\<close>,
    \<open>reload_config\<close> returns normally, having logged the failure.
  \<^item> In a tick that reloads because of the flag set by \<open>SIGHUP\<close>, such a failure
    is followed by the rest of the tick, from the HA cycle on.
  \<^item> In a tick that reloads because the cluster's configuration has changed, such a
    failure is followed by the rest of the tick, from the saving of the cache on.
  \<^item> If the methods called outside \<open>reload_config\<close> return, and those called
    inside it raise subclasses of \<open>Exception\<close> only, every tick returns normally,
    leaves the termination flag as it was, and the loop goes on to the next tick.
\<close>

theorem reload_failure_is_logged_and_survived:
  "(reload_steps env s = (Inl e, s1) \<and> is_Exception e \<longrightarrow>
      reload_config env s =
        (Inr (), s1\<lparr>trace := trace s1 @ [LogException ''Failed to reload config_file=%s'']\<rparr>))
   \<and> (received_sighup s
        \<and> config_reload_local_configuration env (world s) = (Inr True, w1)
        \<and> reload_steps env (s\<lparr>received_sighup := False, world := w1,
              trace := trace s @ [ConfigReloadLocalConfiguration]\<rparr>) = (Inl e2, s2)
        \<and> is_Exception e2 \<longrightarrow>
      run_tick env s = tick_from_ha env
        (s2\<lparr>trace := trace s2 @ [LogException ''Failed to reload config_file=%s'']\<rparr>))
   \<and> (truthy_config (dcs_cluster env (world s)) = Some cfg
        \<and> config_set_dynamic_configuration env cfg (world s) = (Inr True, w3)
        \<and> reload_steps env (s\<lparr>world := w3,
              trace := trace s @ [ConfigSetDynamicConfiguration cfg]\<rparr>) = (Inl e3, s3)
        \<and> is_Exception e3 \<longrightarrow>
      tick_from_cluster env s = tick_from_cache env
        (s3\<lparr>trace := trace s3 @ [LogException ''Failed to reload config_file=%s'']\<rparr>))
   \<and> (steady env \<and> reload_failures_ordinary env \<longrightarrow>
        (\<exists>s'. run_tick env s = (Inr (), s') \<and> received_sigterm s' = received_sigterm s
              \<and> (\<not> received_sigterm s \<longrightarrow> run_loop env s = run_loop env s')))"
proof (intro conjI impI)
  assume "reload_steps env s = (Inl e, s1) \<and> is_Exception e"
  then show "reload_config env s =
        (Inr (), s1\<lparr>trace := trace s1 @ [LogException ''Failed to reload config_file=%s'']\<rparr>)"
    by (simp add: reload_config_caught)
next
  assume a: "received_sighup s
        \<and> config_reload_local_configuration env (world s) = (Inr True, w1)
        \<and> reload_steps env (s\<lparr>received_sighup := False, world := w1,
              trace := trace s @ [ConfigReloadLocalConfiguration]\<rparr>) = (Inl e2, s2)
        \<and> is_Exception e2"
  then have "tick_sighup env s =
           (Inr (), s2\<lparr>trace := trace s2 @ [LogException ''Failed to reload config_file=%s'']\<rparr>)"
    by (intro tick_sighup_reload_failed [where e = e2 and ?w1.0 = w1]) simp_all
  then show "run_tick env s = tick_from_ha env
        (s2\<lparr>trace := trace s2 @ [LogException ''Failed to reload config_file=%s'']\<rparr>)"
    by (simp add: run_tick_def andthen_def)
next
  assume a: "truthy_config (dcs_cluster env (world s)) = Some cfg
        \<and> config_set_dynamic_configuration env cfg (world s) = (Inr True, w3)
        \<and> reload_steps env (s\<lparr>world := w3,
              trace := trace s @ [ConfigSetDynamicConfiguration cfg]\<rparr>) = (Inl e3, s3)
        \<and> is_Exception e3"
  then have "tick_cluster env s =
           (Inr (), s3\<lparr>trace := trace s3 @ [LogException ''Failed to reload config_file=%s'']\<rparr>)"
    by (intro tick_cluster_reload_failed [where e = e3 and ?w1.0 = w3 and cfg = cfg]) simp_all
  then show "tick_from_cluster env s = tick_from_cache env
        (s3\<lparr>trace := trace s3 @ [LogException ''Failed to reload config_file=%s'']\<rparr>)"
    by (simp add: tick_from_cluster_def andthen_def)
next
  assume "steady env \<and> reload_failures_ordinary env"
  then show "\<exists>s'. run_tick env s = (Inr (), s') \<and> received_sigterm s' = received_sigterm s
              \<and> (\<not> received_sigterm s \<longrightarrow> run_loop env s = run_loop env s')"
    by (simp add: run_tick_survives)
qed

theorem reload_failure_is_logged_and_survived_witness:
  "steady (calm\<lparr>dcs_reload_config := (\<lambda>w. (Inl OtherException, w))\<rparr>)
   \<and> reload_failures_ordinary (calm\<lparr>dcs_reload_config := (\<lambda>w. (Inl OtherException, w))\<rparr>)
   \<and> received_sighup (at_rest 100 104\<lparr>received_sighup := True\<rparr>)
   \<and> fst (reload_steps (calm\<lparr>dcs_reload_config := (\<lambda>w. (Inl OtherException, w))\<rparr>)
        (at_rest 100 104\<lparr>trace := [ConfigReloadLocalConfiguration]\<rparr>)) = Inl OtherException
   \<and> fst (run_tick (calm\<lparr>dcs_reload_config := (\<lambda>w. (Inl OtherException, w))\<rparr>)
        (at_rest 100 104\<lparr>received_sighup := True\<rparr>)) = Inr ()
   \<and> trace (snd (run_tick (calm\<lparr>dcs_reload_config := (\<lambda>w. (Inl OtherException, w))\<rparr>)
        (at_rest 100 104\<lparr>received_sighup := True\<rparr>)))
       = [ConfigReloadLocalConfiguration, DcsReloadConfig,
          LogException ''Failed to reload config_file=%s'',
          HaRunCycle, LogInfo ''no action'', PostgresqlDataDirectoryEmpty, ConfigSaveCache,
          ReapChildren, DcsWatch 6]"
proof -
  let ?env = "calm\<lparr>dcs_reload_config := (\<lambda>w. (Inl OtherException, w))\<rparr>"
  let ?s = "at_rest 100 104\<lparr>received_sighup := True\<rparr>"
  let ?s2 = "at_rest 100 104\<lparr>tags := get_tags Map.empty,
               trace := [ConfigReloadLocalConfiguration, DcsReloadConfig]\<rparr>"
  have a: "steady ?env"
    by (auto simp add: steady_def never_raises_def calm_def)
  have b: "reload_failures_ordinary ?env"
    by (simp add: reload_failures_ordinary_def raises_only_exceptions_def calm_def)
  have c: "received_sighup ?s"
    by simp
  have d: "config_reload_local_configuration ?env (world ?s) = (Inr True, 104)"
    by (simp add: calm_def at_rest_def)
  have e: "reload_steps ?env (?s\<lparr>received_sighup := False, world := 104,
              trace := trace ?s @ [ConfigReloadLocalConfiguration]\<rparr>) = (Inl OtherException, ?s2)"
    by (simp add: reload_steps_def assign_tags_def andthen_def call_def calm_def at_rest_def)
  have f: "is_Exception OtherException"
    by simp
  from reload_failure_is_logged_and_survived
      [where env = "?env" and s = "?s" and ?w1.0 = 104 and ?e2.0 = OtherException and ?s2.0 = "?s2"]
    c d e f
  have "run_tick ?env ?s = tick_from_ha ?env
          (?s2\<lparr>trace := trace ?s2 @ [LogException ''Failed to reload config_file=%s'']\<rparr>)"
    by blast
  then have g: "run_tick ?env ?s =
      (Inr (), at_rest 100 104\<lparr>tags := get_tags Map.empty, next_run := 110,
         trace := [ConfigReloadLocalConfiguration, DcsReloadConfig,
          LogException ''Failed to reload config_file=%s'',
          HaRunCycle, LogInfo ''no action'', PostgresqlDataDirectoryEmpty, ConfigSaveCache,
          ReapChildren, DcsWatch 6]\<rparr>)"
    by (simp add: tick_from_ha_def tick_from_cluster_def tick_from_cache_def tick_ha_def
        tick_cluster_def tick_cache_def tick_rest_def save_cache_def schedule_next_run_def
        truthy_config_def action_defs Let_def calm_def at_rest_def)
  have h: "fst (reload_steps ?env (at_rest 100 104\<lparr>trace := [ConfigReloadLocalConfiguration]\<rparr>))
             = Inl OtherException"
    by (simp add: reload_steps_def assign_tags_def andthen_def call_def calm_def at_rest_def)
  from a b c h g show ?thesis by simp
qed

lemma save_cache_failed:
  assumes "config_write_cache env (world s) = (False, w1)"
  shows "save_cache env s =
           (Inr (), s\<lparr>world := w1,
              trace := trace s @ [ConfigSaveCache, LogException ''Exception when saving file'']\<rparr>)"
  using assms by (simp add: save_cache_def log_def Let_def)

text \<open>
  C8. \<open>save_cache\<close> is the method modelled from the spec. A write of the cache that
  fails is logged and \<open>save_cache\<close> returns normally; in a tick whose data directory
  is initialised, the failure is followed by the rest of the tick, the reaping of
  children and the scheduling of the next run; and, under the assumptions of C6 on the
  other methods, the tick returns normally and the loop goes on to the next tick.
\<close>

theorem cache_failure_is_logged_and_survived:
  "(config_write_cache env (world s) = (False, w1) \<longrightarrow>
      save_cache env s =
        (Inr (), s\<lparr>world := w1,
           trace := trace s @ [ConfigSaveCache, LogException ''Exception when saving file'']\<rparr>))
   \<and> (postgresql_data_directory_empty env (world s) = (Inr False, w2)
        \<and> config_write_cache env w2 = (False, w3) \<longrightarrow>
      tick_from_cache env s = tick_rest env
        (s\<lparr>world := w3,
           trace := trace s @ [PostgresqlDataDirectoryEmpty, ConfigSaveCache,
                               LogException ''Exception when saving file'']\<rparr>))
   \<and> (steady env \<and> reload_failures_ordinary env \<longrightarrow>
        (\<exists>s'. run_tick env s = (Inr (), s') \<and> received_sigterm s' = received_sigterm s
              \<and> (\<not> received_sigterm s \<longrightarrow> run_loop env s = run_loop env s')))"
proof (intro conjI impI)
  assume "config_write_cache env (world s) = (False, w1)"
  then show "save_cache env s =
        (Inr (), s\<lparr>world := w1,
           trace := trace s @ [ConfigSaveCache, LogException ''Exception when saving file'']\<rparr>)"
    by (rule save_cache_failed)
next
  assume "postgresql_data_directory_empty env (world s) = (Inr False, w2)
        \<and> config_write_cache env w2 = (False, w3)"
  then show "tick_from_cache env s = tick_rest env
        (s\<lparr>world := w3,
           trace := trace s @ [PostgresqlDataDirectoryEmpty, ConfigSaveCache,
                               LogException ''Exception when saving file'']\<rparr>)"
    by (simp add: tick_from_cache_def tick_cache_def andthen_def call_def save_cache_failed)
next
  assume "steady env \<and> reload_failures_ordinary env"
  then show "\<exists>s'. run_tick env s = (Inr (), s') \<and> received_sigterm s' = received_sigterm s
              \<and> (\<not> received_sigterm s \<longrightarrow> run_loop env s = run_loop env s')"
    by (simp add: run_tick_survives)
qed


theorem cache_failure_is_logged_and_survived_witness:
  "steady (calm\<lparr>config_write_cache := (\<lambda>w. (False, w))\<rparr>)
   \<and> reload_failures_ordinary (calm\<lparr>config_write_cache := (\<lambda>w. (False, w))\<rparr>)
   \<and> postgresql_data_directory_empty (calm\<lparr>config_write_cache := (\<lambda>w. (False, w))\<rparr>)
        (world (at_rest 100 104)) = (Inr False, 104)
   \<and> config_write_cache (calm\<lparr>config_write_cache := (\<lambda>w. (False, w))\<rparr>) 104 = (False, 104)
   \<and> tick_from_cache (calm\<lparr>config_write_cache := (\<lambda>w. (False, w))\<rparr>) (at_rest 100 104)
       = (Inr (), at_rest 100 104\<lparr>next_run := 110,
            trace := [PostgresqlDataDirectoryEmpty, ConfigSaveCache,
                      LogException ''Exception when saving file'', ReapChildren, DcsWatch 6]\<rparr>)"
proof -
  let ?env = "calm\<lparr>config_write_cache := (\<lambda>w. (False, w))\<rparr>"
  have a: "steady ?env"
    by (auto simp add: steady_def never_raises_def calm_def)
  have b: "reload_failures_ordinary ?env"
    by (simp add: reload_failures_ordinary_def raises_only_exceptions_def calm_def)
  have c: "postgresql_data_directory_empty ?env (world (at_rest 100 104)) = (Inr False, 104)"
    by (simp add: calm_def at_rest_def)
  have d: "config_write_cache ?env 104 = (False, 104)"
    by simp
  from cache_failure_is_logged_and_survived
      [where env = "?env" and s = "at_rest 100 104" and ?w2.0 = 104 and ?w3.0 = 104] c d
  have "tick_from_cache ?env (at_rest 100 104) = tick_rest ?env
          (at_rest 100 104\<lparr>world := 104,
             trace := trace (at_rest 100 104) @ [PostgresqlDataDirectoryEmpty, ConfigSaveCache,
                               LogException ''Exception when saving file'']\<rparr>)"
    by blast
  then have "tick_from_cache ?env (at_rest 100 104)
       = (Inr (), at_rest 100 104\<lparr>next_run := 110,
            trace := [PostgresqlDataDirectoryEmpty, ConfigSaveCache,
                      LogException ''Exception when saving file'', ReapChildren, DcsWatch 6]\<rparr>)"
    by (simp add: tick_rest_def schedule_next_run_def action_defs Let_def calm_def at_rest_def)
  with a b c d show ?thesis by simp
qed

end
